theory Spec2Isabelle
  imports Complex_Main
begin

section \<open>HelloFresh recipe sheets: a shallow embedding of hfrecipes.py\<close>

text \<open>
  The program reads recipe records (JSON objects) and writes one PDF per recipe with
  the FPDF library, downloading the pictures it places into a cache directory.

  Conventions of the embedding.
  \<^item> A Python \<^verbatim>\<open>str\<close> is a \<open>string\<close> holding its UTF-8 bytes. The operations used
    (\<^verbatim>\<open>+\<close>, \<^verbatim>\<open>==\<close>, \<^verbatim>\<open>in\<close>, \<^verbatim>\<open>replace\<close>, \<^verbatim>\<open>split\<close>, all with well-formed
    patterns) give the same result on code points and on UTF-8 bytes.
  \<^item> A Python exception is a value \<open>Inl e\<close> of \<open>error + 'a\<close>.
  \<^item> The records give each JSON key the type the catalogue sends. A key read with a
    subscript (\<^verbatim>\<open>d['k']\<close>) is a \<open>field\<close>: absent (KeyError), null, or a value. A key
    of the recipe itself read as an attribute of \<^verbatim>\<open>AttrDict\<close> is an \<open>option\<close>: absent
    and null both read as None.
  \<^item> Failures of the operating system and of the PDF library (a full disk, a missing
    font file) are outside the model; the failures modelled are the exceptions raised by the
    program's own expressions and its \<^verbatim>\<open>raise Exception(resp)\<close> on a response whose
    status is not 200.
\<close>

subsection \<open>Python values and built-ins\<close>

datatype error = TypeError | KeyError | IndexError | ValueError | FetchFailed string

datatype 'a field = Missing | Null | Val 'a

text \<open>\<^verbatim>\<open>d['k']\<close> on a dict: KeyError when the key is absent, else the value (None for null).\<close>

fun getitem :: "'a field \<Rightarrow> error + 'a option" where
  "getitem Missing = Inl KeyError"
| "getitem Null = Inr None"
| "getitem (Val v) = Inr (Some v)"

text \<open>\<^verbatim>\<open>xs[i]\<close> on a value that is a list or None: TypeError on None, IndexError out of range.\<close>

fun subscript :: "'a list option \<Rightarrow> nat \<Rightarrow> error + 'a" where
  "subscript None i = Inl TypeError"
| "subscript (Some xs) i = (if i < length xs then Inr (xs ! i) else Inl IndexError)"

definition bind_err :: "error + 'a \<Rightarrow> ('a \<Rightarrow> error + 'b) \<Rightarrow> error + 'b" where
  "bind_err m f = (case m of Inl e \<Rightarrow> Inl e | Inr v \<Rightarrow> f v)"

text \<open>
  A JSON number is an \<^verbatim>\<open>int\<close> or a \<^verbatim>\<open>float\<close>. \<open>PyFloat m k\<close> is the float written
  \<open>m / 10 ^ k\<close> in decimal, which is how the catalogue's JSON gives it; \<open>py_str\<close> prints
  it as Python's \<^verbatim>\<open>str\<close> does for a float of at most 15 significant digits and of
  magnitude from \<open>1e-4\<close> up to \<open>1e16\<close> (positional notation, at least one digit after the
  point, no trailing zeros), and comparing such a float with 1 is comparing the decimals.
\<close>

datatype number = PyInt int | PyFloat int nat

fun num_val :: "number \<Rightarrow> rat" where
  "num_val (PyInt i) = of_int i"
| "num_val (PyFloat m k) = of_int m / 10 ^ k"

definition digit_char :: "nat \<Rightarrow> char" where
  "digit_char d = ''0123456789'' ! d"

fun digits :: "nat \<Rightarrow> string" where
  "digits n = (if n < 10 then [digit_char n] else digits (n div 10) @ [digit_char (n mod 10)])"

declare digits.simps [simp del]

definition pad_left :: "nat \<Rightarrow> string \<Rightarrow> string" where
  "pad_left k s = replicate (k - length s) (CHR ''0'') @ s"

definition strip_zeros :: "string \<Rightarrow> string" where
  "strip_zeros s = rev (dropWhile (\<lambda>c. c = CHR ''0'') (rev s))"

definition sign_str :: "int \<Rightarrow> string" where
  "sign_str i = (if i < 0 then ''-'' else [])"

fun py_str :: "number \<Rightarrow> string" where
  "py_str (PyInt i) = sign_str i @ digits (nat \<bar>i\<bar>)"
| "py_str (PyFloat m k) =
     (let a = nat \<bar>m\<bar>;
          frac = strip_zeros (pad_left k (digits (a mod 10 ^ k)))
      in sign_str m @ digits (a div 10 ^ k) @ ''.'' @ (if k = 0 \<or> frac = [] then ''0'' else frac))"

text \<open>\<^verbatim>\<open>str(x)\<close> and \<^verbatim>\<open>f'{x}'\<close> for a value that is a number or None.\<close>

fun str_opt :: "number option \<Rightarrow> string" where
  "str_opt None = ''None''"
| "str_opt (Some n) = py_str n"

text \<open>\<^verbatim>\<open>f'{x}'\<close> for a value that is a string or None.\<close>

fun format_str :: "string option \<Rightarrow> string" where
  "format_str None = ''None''"
| "format_str (Some s) = s"

text \<open>\<^verbatim>\<open>sub in s\<close> on strings.\<close>

fun contains :: "string \<Rightarrow> string \<Rightarrow> bool" where
  "contains sub [] = (sub = [])"
| "contains sub (c # cs) = (take (length sub) (c # cs) = sub \<or> contains sub cs)"

text \<open>
  \<^verbatim>\<open>s.replace(old, new)\<close>: every occurrence of \<open>old\<close>, leftmost first and without
  overlap. The program only passes non-empty literals for \<open>old\<close>; the first branch is
  what Python does with an empty one.
\<close>

function replace :: "string \<Rightarrow> string \<Rightarrow> string \<Rightarrow> string" where
  "replace old new s =
     (if old = [] then new @ concat (map (\<lambda>c. c # new) s)
      else if s = [] then []
      else if take (length old) s = old then new @ replace old new (drop (length old) s)
      else hd s # replace old new (tl s))"
  by pat_completeness auto
termination
  by (relation "measure (\<lambda>(old, new, s). length s)") auto

text \<open>
  \<^verbatim>\<open>s.split(sep)\<close> for a non-empty separator (the program's is the literal \<^verbatim>\<open>' with'\<close>;
  Python raises ValueError on an empty one, which no call here can pass).
\<close>

function split :: "string \<Rightarrow> string \<Rightarrow> string list" where
  "split sep s =
     (if sep = [] then [s]
      else if s = [] then [[]]
      else if take (length sep) s = sep then [] # split sep (drop (length sep) s)
      else (case split sep (tl s) of p # ps \<Rightarrow> (hd s # p) # ps | [] \<Rightarrow> [[hd s]]))"
  by pat_completeness auto
termination
  by (relation "measure (\<lambda>(sep, s). length s)") auto

declare replace.simps [simp del] split.simps [simp del]

subsection \<open>The data of a recipe\<close>

text \<open>One element of \<^verbatim>\<open>yields[0]['ingredients']\<close>: keys \<^verbatim>\<open>amount\<close> and \<^verbatim>\<open>unit\<close>.\<close>

record amount_details =
  amount :: "number field"
  unit :: "string field"

text \<open>One element of \<^verbatim>\<open>yields\<close>: key \<^verbatim>\<open>ingredients\<close>.\<close>

record yield =
  yield_ingredients :: "amount_details list field"

text \<open>One element of \<^verbatim>\<open>ingredients\<close>: keys \<^verbatim>\<open>name\<close> and \<^verbatim>\<open>imagePath\<close>.\<close>

record ingredient =
  ingr_name :: "string field"
  ingr_imagePath :: "string field"

text \<open>One element of a step's \<^verbatim>\<open>images\<close>: key \<^verbatim>\<open>path\<close>.\<close>

record step_image =
  path :: "string field"

text \<open>One element of \<^verbatim>\<open>steps\<close>: keys \<^verbatim>\<open>images\<close> and \<^verbatim>\<open>instructions\<close>.\<close>

record step =
  images :: "step_image list field"
  instructions :: "string field"

text \<open>One element of \<^verbatim>\<open>nutrition\<close>: key \<^verbatim>\<open>amount\<close>.\<close>

record nutrient =
  nutr_amount :: "number field"

text \<open>
  The recipe as \<^verbatim>\<open>AttrDict\<close>. Only \<^verbatim>\<open>description\<close> is read with a subscript
  (\<^verbatim>\<open>recipe['description']\<close>).
\<close>

record recipe =
  name :: "string option"
  headline :: "string option"
  description :: "string field"
  author :: "string option"
  slug :: "string option"
  imagePath :: "string option"
  nutrition :: "nutrient list option"
  ingredients :: "ingredient list option"
  steps :: "step list option"
  yields :: "yield list option"

subsection \<open>get_ingredient_details\<close>

text \<open>The three chained \<^verbatim>\<open>replace\<close> calls on \<^verbatim>\<open>str(amount)\<close>; the glyphs in UTF-8.\<close>

definition quarter :: string where
  "quarter = [CHR 0xC2, CHR 0xBC]"

definition half :: string where
  "half = [CHR 0xC2, CHR 0xBD]"

definition three_quarters :: string where
  "three_quarters = [CHR 0xC2, CHR 0xBE]"

definition amount_str :: "number option \<Rightarrow> string" where
  "amount_str a =
     replace ''0.75'' three_quarters (replace ''0.5'' half (replace ''0.25'' quarter (str_opt a)))"

text \<open>\<^verbatim>\<open>'s' if amount is not None and amount > 1 else ''\<close>\<close>

fun pluralise :: "number option \<Rightarrow> string" where
  "pluralise None = []"
| "pluralise (Some n) = (if num_val n > 1 then ''s'' else [])"

text \<open>
  The function returns a pair of lines; a line is a string, or None when the ingredient's
  name is null.
\<close>

definition get_ingredient_details ::
  "recipe \<Rightarrow> nat \<Rightarrow> error + (string option \<times> string option)" where
  "get_ingredient_details recipe idx =
     bind_err (subscript (yields recipe) 0) (\<lambda>y.
     bind_err (getitem (yield_ingredients y)) (\<lambda>ys.
     bind_err (subscript ys idx) (\<lambda>amount_details.
     bind_err (getitem (amount amount_details)) (\<lambda>amt.
     bind_err (getitem (unit amount_details)) (\<lambda>units.
     bind_err (subscript (ingredients recipe) idx) (\<lambda>ingr.
     bind_err (getitem (ingr_name ingr)) (\<lambda>nm.
       (case units of
          None \<Rightarrow> Inr (nm, Some [])
        | Some u \<Rightarrow>
            if u = ''unit'' then Inr (Some (amount_str amt), nm)
            else Inr (Some (amount_str amt @ '' '' @ u @ pluralise amt), nm)))))))))"

subsection \<open>The file system, the network and the page\<close>

text \<open>
  One call of \<^verbatim>\<open>self.write\<close>, \<^verbatim>\<open>self.multi_cell\<close> or \<^verbatim>\<open>pdf.image\<close>, in the order
  of the source's arguments: \<open>Text size x y text\<close>, \<open>MultiCell size x y width height text\<close>,
  \<open>Picture file x y (W w)\<close> or \<open>(H h)\<close>. A \<open>pdf\<close> is the list of the calls made on it.
\<close>

datatype extent = W int | H int

datatype draw =
  Text int int int "string option"
| MultiCell int int int int int string
| Picture string int int extent

type_synonym pdf = "draw list"

datatype content = Image string | Pdf pdf

text \<open>
  The state outside the process: regular files with what was written into them (a cached
  picture holds the response to the link it was fetched from), directories, and the GET
  requests sent so far.
\<close>

record state =
  files :: "string \<rightharpoonup> content"
  dirs :: "string set"
  requests :: "string list"

text \<open>
  The object \<^verbatim>\<open>self\<close>: its two directories, and the status code the session's
  \<^verbatim>\<open>get\<close> answers for a link.
\<close>

record api =
  RECIPE_DIR :: string
  TEMP_DIR :: string
  status_code :: "string \<Rightarrow> nat"

text \<open>A computation reads and changes the state, and returns a value or raises.\<close>

type_synonym 'a prog = "state \<Rightarrow> (error + 'a) \<times> state"

definition ret :: "'a \<Rightarrow> 'a prog" where
  "ret v st = (Inr v, st)"

definition lift :: "error + 'a \<Rightarrow> 'a prog" where
  "lift r st = (r, st)"

definition bind :: "'a prog \<Rightarrow> ('a \<Rightarrow> 'b prog) \<Rightarrow> 'b prog" where
  "bind m f st = (case m st of (Inl e, st') \<Rightarrow> (Inl e, st') | (Inr v, st') \<Rightarrow> f v st')"

text \<open>\<^verbatim>\<open>os.path.join\<close> of a directory and a file name that is not itself an absolute path.\<close>

definition path_join :: "string \<Rightarrow> string \<Rightarrow> string" where
  "path_join base_path dir_name = base_path @ ''/'' @ dir_name"

definition isfile :: "string \<Rightarrow> bool prog" where
  "isfile p st = (Inr (files st p \<noteq> None), st)"

definition path_exists :: "string \<Rightarrow> bool prog" where
  "path_exists p st = (Inr (files st p \<noteq> None \<or> p \<in> dirs st), st)"

definition get_or_make_dir :: "string \<Rightarrow> string \<Rightarrow> string prog" where
  "get_or_make_dir base_path dir_name st =
     (let directory = path_join base_path dir_name
      in (Inr directory, st\<lparr>dirs := insert directory (dirs st)\<rparr>))"

definition IMAGE_URL :: "string \<Rightarrow> nat \<Rightarrow> string" where
  "IMAGE_URL ext height =
     ''https://res.cloudinary.com/hellofresh/image/upload/f_'' @ ext @ '',q_auto,h_''
       @ digits height @ ''/v1/hellofresh_s3''"

text \<open>\<^verbatim>\<open>self.s.get(link, stream=True)\<close>: the request is sent, the status code comes back.\<close>

definition http_get :: "api \<Rightarrow> string \<Rightarrow> nat prog" where
  "http_get self link st = (Inr (status_code self link), st\<lparr>requests := requests st @ [link]\<rparr>)"

definition write_file :: "string \<Rightarrow> content \<Rightarrow> unit prog" where
  "write_file p c st = (Inr (), st\<lparr>files := (files st)(p \<mapsto> c)\<rparr>)"

definition save_image :: "api \<Rightarrow> string option \<Rightarrow> string \<Rightarrow> string \<Rightarrow> nat \<Rightarrow> string prog" where
  "save_image self url nm ext height =
     (let nm' = nm @ ''.'' @ ext;
          p = path_join (TEMP_DIR self) nm'
      in bind (isfile p) (\<lambda>cached.
           if cached then ret p
           else (case url of
                   None \<Rightarrow> lift (Inl TypeError)
                 | Some u \<Rightarrow>
                     (let link = IMAGE_URL ext height @ u
                      in bind (http_get self link) (\<lambda>status.
                           if status \<noteq> 200 then lift (Inl (FetchFailed link))
                           else bind (write_file p (Image link)) (\<lambda>_. ret p))))))"

subsection \<open>prepare_str, write, multi_cell\<close>

text \<open>The method \<^verbatim>\<open>write\<close> is \<open>write_pdf\<close> here.\<close>

definition word_joiner :: string where
  "word_joiner = [CHR 0xE2, CHR 0x81, CHR 0xA0]"

definition prepare_str :: "string option \<Rightarrow> bool \<Rightarrow> string" where
  "prepare_str string filename =
     (case string of
        None \<Rightarrow> []
      | Some s \<Rightarrow>
          (let s1 = replace word_joiner [] (replace [CHR 0x0A] '' '' s)
           in if filename then replace ''*'' [] (replace [CHR 0x22] [CHR 0x27] s1) else s1))"

definition write_pdf :: "pdf \<Rightarrow> int \<Rightarrow> int \<Rightarrow> int \<Rightarrow> string option \<Rightarrow> pdf" where
  "write_pdf pdf sz x y txt = pdf @ [Text sz x y txt]"

definition multi_cell :: "pdf \<Rightarrow> int \<Rightarrow> int \<Rightarrow> int \<Rightarrow> int \<Rightarrow> int \<Rightarrow> string \<Rightarrow> pdf" where
  "multi_cell pdf sz x y width height txt = pdf @ [MultiCell sz x y width height txt]"

definition image :: "pdf \<Rightarrow> string \<Rightarrow> int \<Rightarrow> int \<Rightarrow> extent \<Rightarrow> pdf" where
  "image pdf img x y e = pdf @ [Picture img x y e]"

subsection \<open>process_recipe\<close>

definition COMMON_INGREDIENTS :: "string list" where
  "COMMON_INGREDIENTS = [''Salt'', ''Pepper'', ''Sugar'', ''Butter'']"

text \<open>Truth value of a value that is a list or None, and of one that is a string or None.\<close>

fun truthy :: "'a list option \<Rightarrow> bool" where
  "truthy None = False"
| "truthy (Some xs) = (xs \<noteq> [])"

text \<open>
  \<^verbatim>\<open>num_ingr/4\<close> is a float; for a count below \<open>2 ^ 53\<close> it is the exact quotient,
  here a rational.
\<close>

definition truediv :: "int \<Rightarrow> int \<Rightarrow> rat" where
  "truediv a b = of_int a / of_int b"

definition math_floor :: "rat \<Rightarrow> int" where
  "math_floor q = \<lfloor>q\<rfloor>"

definition math_ceil :: "rat \<Rightarrow> int" where
  "math_ceil q = \<lceil>q\<rceil>"

text \<open>
  Lines 159 to 161. The tuple assignment needs exactly two parts, so a name with a second
  \<^verbatim>\<open>' with'\<close> raises ValueError; \<^verbatim>\<open>in\<close> on None raises TypeError.
\<close>

definition split_name :: "recipe \<Rightarrow> error + recipe" where
  "split_name recipe =
     (case name recipe of
        None \<Rightarrow> Inl TypeError
      | Some n \<Rightarrow>
          if contains '' with'' n then
            (case split '' with'' n of
               [first, remainder] \<Rightarrow>
                 Inr (recipe\<lparr>name := Some first, headline := Some (''With'' @ remainder)\<rparr>)
             | _ \<Rightarrow> Inl ValueError)
          else Inr recipe)"

text \<open>\<^verbatim>\<open>ingr['name'] in COMMON_INGREDIENTS\<close>: equality with one of the four strings.\<close>

fun is_common :: "string option \<Rightarrow> bool" where
  "is_common None = False"
| "is_common (Some n) = (n \<in> set COMMON_INGREDIENTS)"

text \<open>The body of the loop over the ingredients (lines 189 to 199), on \<open>(pdf, num_ingr)\<close>.\<close>

definition ingredient_body ::
  "api \<Rightarrow> recipe \<Rightarrow> nat \<Rightarrow> ingredient \<Rightarrow> pdf \<times> int \<Rightarrow> (pdf \<times> int) prog" where
  "ingredient_body self recipe idx ingr acc =
     (case acc of (pdf, num_ingr) \<Rightarrow>
      bind (lift (getitem (ingr_name ingr))) (\<lambda>nm.
        if is_common nm then ret (pdf, num_ingr)
        else
          bind (lift (getitem (ingr_imagePath ingr))) (\<lambda>ip.
          bind (if truthy ip then
                  bind (save_image self ip (prepare_str nm True) ''png'' 200) (\<lambda>img.
                    ret (image pdf img (10 + 46 * (num_ingr mod 4))
                           (62 + 13 * math_floor (truediv num_ingr 4)) (H 12)))
                else ret pdf) (\<lambda>pdf1.
          bind (lift (get_ingredient_details recipe idx)) (\<lambda>(ln_1, ln_2).
            (let pdf2 = write_pdf pdf1 9 (22 + 46 * (num_ingr mod 4))
                          (66 + 13 * math_floor (truediv num_ingr 4)) ln_1;
                 pdf3 = write_pdf pdf2 7 (22 + 46 * (num_ingr mod 4))
                          (70 + 13 * math_floor (truediv num_ingr 4)) ln_2
             in ret (pdf3, num_ingr + 1)))))))"

fun ingredients_loop ::
  "api \<Rightarrow> recipe \<Rightarrow> (nat \<times> ingredient) list \<Rightarrow> pdf \<times> int \<Rightarrow> (pdf \<times> int) prog" where
  "ingredients_loop self recipe [] acc = ret acc"
| "ingredients_loop self recipe ((idx, ingr) # rest) acc =
     bind (ingredient_body self recipe idx ingr acc) (ingredients_loop self recipe rest)"

text \<open>The body of the loop over the steps (lines 205 to 210).\<close>

definition step_body :: "api \<Rightarrow> recipe \<Rightarrow> int \<Rightarrow> nat \<Rightarrow> step \<Rightarrow> pdf \<Rightarrow> pdf prog" where
  "step_body self recipe steps_y idx stp pdf =
     bind (lift (getitem (images stp))) (\<lambda>imgs.
     bind (case imgs of
             Some (first # _) \<Rightarrow>
               bind (lift (getitem (path first))) (\<lambda>p.
                 if truthy p then
                   bind (save_image self p
                           (prepare_str (Some (format_str (slug recipe) @ ''-step_'' @ digits idx)) True)
                           ''jpg'' 400) (\<lambda>img.
                     ret (image pdf img 10 (steps_y + int idx * 26) (W 36)))
                 else ret pdf)
           | _ \<Rightarrow> ret pdf) (\<lambda>pdf1.
     bind (lift (getitem (instructions stp))) (\<lambda>instr.
       ret (multi_cell pdf1 10 50 (steps_y + int idx * 26) 145 4 (prepare_str instr False)))))"

fun steps_loop ::
  "api \<Rightarrow> recipe \<Rightarrow> int \<Rightarrow> (nat \<times> step) list \<Rightarrow> pdf \<Rightarrow> pdf prog" where
  "steps_loop self recipe steps_y [] pdf = ret pdf"
| "steps_loop self recipe steps_y ((idx, stp) # rest) pdf =
     bind (step_body self recipe steps_y idx stp pdf) (steps_loop self recipe steps_y rest)"

text \<open>\<^verbatim>\<open>enumerate(xs)\<close> on a value that is a list; iterating over None raises TypeError.\<close>

fun py_enumerate :: "'a list option \<Rightarrow> error + (nat \<times> 'a) list" where
  "py_enumerate None = Inl TypeError"
| "py_enumerate (Some xs) = Inr (enumerate 0 xs)"

text \<open>Lines 170 to 210: the page is built in memory, the pictures are fetched on the way.\<close>

definition compose :: "api \<Rightarrow> recipe \<Rightarrow> pdf prog" where
  "compose self recipe =
     (let pdf1 = write_pdf [] 14 10 15 (Some (prepare_str (name recipe) False));
          pdf2 = write_pdf pdf1 10 10 20 (Some (prepare_str (headline recipe) False))
      in bind (lift (bind_err (subscript (nutrition recipe) 1) (\<lambda>n. getitem (nutr_amount n)))) (\<lambda>cal.
         let pdf3 = write_pdf pdf2 10 10 25
                      (Some (''For 2 people, '' @ str_opt cal @ '' cal per serving''))
         in bind (lift (getitem (description recipe))) (\<lambda>descr.
         let pdf4 = multi_cell pdf3 7 10 30 110 4 (prepare_str descr False)
         in bind (save_image self (imagePath recipe)
                    (prepare_str (Some (format_str (slug recipe) @ ''-main'')) True) ''jpg'' 600) (\<lambda>img.
         let pdf5 = image pdf4 img 125 10 (W 72)
         in bind (lift (py_enumerate (ingredients recipe))) (\<lambda>ingrs.
            bind (ingredients_loop self recipe ingrs (pdf5, 0)) (\<lambda>(pdf6, num_ingr).
            let steps_y = 67 + 13 * math_ceil (truediv num_ingr 4)
            in bind (lift (py_enumerate (steps recipe))) (\<lambda>stps.
               steps_loop self recipe steps_y stps pdf6)))))))"

text \<open>
  The whole function. \<^verbatim>\<open>f'{recipe.name}.pdf'\<close> formats a name that is a string here,
  since \<open>split_name\<close> raised otherwise. The \<^verbatim>\<open>print\<close> calls are left out.
\<close>

definition process_recipe :: "api \<Rightarrow> recipe \<Rightarrow> unit prog" where
  "process_recipe self recipe0 =
     (if \<not> truthy (steps recipe0) \<or> \<not> truthy (ingredients recipe0) then ret ()
      else
        bind (lift (split_name recipe0)) (\<lambda>recipe.
        bind (case author recipe of
                None \<Rightarrow> ret (RECIPE_DIR self)
              | Some a \<Rightarrow> get_or_make_dir (RECIPE_DIR self) a) (\<lambda>dest_dir.
        let out = path_join dest_dir (prepare_str (Some (format_str (name recipe) @ ''.pdf'')) True)
        in bind (path_exists out) (\<lambda>found.
             if found then ret ()
             else bind (compose self recipe) (\<lambda>pdf. write_file out (Pdf pdf))))))"

subsection \<open>process_all_recipes\<close>

text \<open>
  Lines 145 to 149. The list loaded from \<^verbatim>\<open>recipes.json\<close> is the parameter \<open>recipes\<close>, and
  \<open>cpu_count\<close> is what \<^verbatim>\<open>os.cpu_count()\<close> returned. \<^verbatim>\<open>Pool\<close> takes one process when that is
  None and raises ValueError for a number below one. \<^verbatim>\<open>pool.map\<close> computes the chunk size
  with \<^verbatim>\<open>divmod(len(recipes), processes * 4)\<close>, one more when there is a remainder, and cuts
  the list into chunks of that many recipes. A worker maps \<open>process_recipe\<close> over a chunk and
  gives the chunk up at the first exception; every chunk is run, and when all of them are
  done \<^verbatim>\<open>map\<close> raises the exception of the first chunk that failed, if there is one.

  The workers share one disk. Here the chunks, and the recipes of a chunk, are taken one
  after the other in the order of the list: one of the schedules of the pool.
\<close>

definition chunksize :: "nat \<Rightarrow> nat \<Rightarrow> nat" where
  "chunksize n processes =
     (let c = n div (processes * 4); extra = n mod (processes * 4)
      in if extra \<noteq> 0 then c + 1 else c)"

function batches :: "nat \<Rightarrow> 'a list \<Rightarrow> 'a list list" where
  "batches n xs = (if n = 0 \<or> xs = [] then [] else take n xs # batches n (drop n xs))"
  by pat_completeness auto
termination
  by (relation "measure (\<lambda>(n, xs). length xs)") auto

declare batches.simps [simp del]

fun mapstar :: "api \<Rightarrow> recipe list \<Rightarrow> unit prog" where
  "mapstar self [] = ret ()"
| "mapstar self (recipe # rest) = bind (process_recipe self recipe) (\<lambda>_. mapstar self rest)"

fun run_tasks :: "api \<Rightarrow> recipe list list \<Rightarrow> unit prog" where
  "run_tasks self [] st = (Inr (), st)"
| "run_tasks self (chunk # rest) st =
     (case mapstar self chunk st of (res, st1) \<Rightarrow>
        (case run_tasks self rest st1 of (res', st2) \<Rightarrow>
           (case res of Inl e \<Rightarrow> (Inl e, st2) | Inr _ \<Rightarrow> (res', st2))))"

definition process_all_recipes :: "api \<Rightarrow> nat option \<Rightarrow> recipe list \<Rightarrow> unit prog" where
  "process_all_recipes self cpu_count recipes =
     (let processes = (case cpu_count of None \<Rightarrow> 1 | Some n \<Rightarrow> n)
      in if processes < 1 then lift (Inl ValueError)
         else run_tasks self (batches (chunksize (length recipes) processes) recipes))"

subsection \<open>Notions of the specification, and inputs for the examples\<close>

text \<open>
  An ingredient is excluded when its name is one of \<open>COMMON_INGREDIENTS\<close>; the others are
  the rendered ingredients.
\<close>

definition excluded :: "ingredient \<Rightarrow> bool" where
  "excluded ingr = (\<exists>n \<in> set COMMON_INGREDIENTS. ingr_name ingr = Val n)"

text \<open>The path of the recipe's document (lines 163 and 164), for a recipe whose name is split.\<close>

definition output_path :: "api \<Rightarrow> recipe \<Rightarrow> string" where
  "output_path self recipe =
     path_join (case author recipe of None \<Rightarrow> RECIPE_DIR self | Some a \<Rightarrow> path_join (RECIPE_DIR self) a)
       (prepare_str (Some (format_str (name recipe) @ ''.pdf'')) True)"


definition step_block :: "int \<Rightarrow> draw list \<Rightarrow> bool" where
  "step_block y b \<longleftrightarrow>
     (\<exists>pics txt.
        b = pics @ [MultiCell 10 50 y 145 4 txt]
        \<and> (pics = [] \<or> (\<exists>f. pics = [Picture f 10 y (W 36)])))"

text \<open>
  The calls for a rendered ingredient in grid slot \<open>k\<close>, where \<open>x\<close> is the ingredient paired
  with its index in the recipe's full list of ingredients: its picture, if it has a path
  for one, stored under the ingredient's own name, and the two lines that
  \<open>get_ingredient_details\<close> gives for that index.
\<close>

definition rendered_cell :: "api \<Rightarrow> recipe \<Rightarrow> int \<Rightarrow> nat \<times> ingredient \<Rightarrow> draw list \<Rightarrow> bool" where
  "rendered_cell self recipe k x c \<longleftrightarrow>
     (\<exists>nm ip ln_1 ln_2.
        getitem (ingr_name (snd x)) = Inr nm \<and> getitem (ingr_imagePath (snd x)) = Inr ip
        \<and> get_ingredient_details recipe (fst x) = Inr (ln_1, ln_2)
        \<and> c = (if truthy ip
                 then [Picture (path_join (TEMP_DIR self) (prepare_str nm True @ ''.png''))
                         (10 + 46 * (k mod 4)) (62 + 13 * (k div 4)) (H 12)]
                 else [])
                @ [Text 9 (22 + 46 * (k mod 4)) (66 + 13 * (k div 4)) ln_1,
                   Text 7 (22 + 46 * (k mod 4)) (70 + 13 * (k div 4)) ln_2])"

text \<open>
  Between two states only cached pictures were added: the directories are the same, and a
  path whose file differs had no file before and holds a picture now. A computation
  \<open>fetches_only\<close> when this holds of every run of it, and a \<open>FetchFailed\<close> it raises names
  a link the server did not answer with 200.
\<close>

definition only_pictures_added :: "state \<Rightarrow> state \<Rightarrow> bool" where
  "only_pictures_added st st' \<longleftrightarrow>
     dirs st' = dirs st \<and>
     (\<forall>p. files st' p = files st p \<or> (files st p = None \<and> (\<exists>link. files st' p = Some (Image link))))"

definition fetches_only :: "api \<Rightarrow> 'a prog \<Rightarrow> bool" where
  "fetches_only self m \<longleftrightarrow>
     (\<forall>st r st'. m st = (r, st') \<longrightarrow>
        only_pictures_added st st' \<and> (\<forall>link. r = Inl (FetchFailed link) \<longrightarrow> status_code self link \<noteq> 200))"

text \<open>A later state has kept the files, each with its content, and the directories of a state.\<close>

definition kept :: "state \<Rightarrow> state \<Rightarrow> bool" where
  "kept st st' \<longleftrightarrow> files st \<subseteq>\<^sub>m files st' \<and> dirs st \<subseteq> dirs st'"

text \<open>A recipe of one ingredient and one step, 10.5 ounces of crushed tomatoes.\<close>

definition soup :: recipe where
  "soup = \<lparr>name = Some ''Tomato Soup'', headline = None, description = Null, author = None,
     slug = Some ''tomato-soup'', imagePath = Some ''/soup.jpg'',
     nutrition = Some [\<lparr>nutr_amount = Val (PyInt 12)\<rparr>, \<lparr>nutr_amount = Val (PyInt 480)\<rparr>],
     ingredients = Some [\<lparr>ingr_name = Val ''Crushed Tomatoes'', ingr_imagePath = Null\<rparr>],
     steps = Some [\<lparr>images = Val [], instructions = Val ''Simmer.''\<rparr>],
     yields = Some [\<lparr>yield_ingredients =
       Val [\<lparr>amount = Val (PyFloat 105 1), unit = Val ''ounce''\<rparr>]\<rparr>]\<rparr>"

text \<open>
  A server that answers every request with 200, one that answers 503 for the picture of the
  first step and 200 otherwise, and an empty disk.
\<close>

definition online :: api where
  "online = \<lparr>RECIPE_DIR = ''recipes'', TEMP_DIR = ''tmp'', status_code = (\<lambda>link. 200)\<rparr>"

definition flaky :: api where
  "flaky = \<lparr>RECIPE_DIR = ''recipes'', TEMP_DIR = ''tmp'',
     status_code = (\<lambda>link. if link = IMAGE_URL ''jpg'' 400 @ ''/step-1.jpg'' then 503 else 200)\<rparr>"

definition empty_disk :: state where
  "empty_disk = \<lparr>files = Map.empty, dirs = {''recipes'', ''tmp''}, requests = []\<rparr>"

text \<open>
  A recipe of three ingredients (the first one excluded) and two steps, with an author, and
  the state after it was processed on an empty disk.
\<close>

definition supper :: recipe where
  "supper = \<lparr>name = Some ''Seared Chicken with Lemon Sauce'', headline = Some ''A weeknight classic'',
     description = Val ''Crisp chicken.'', author = Some ''Test Kitchen'',
     slug = Some ''seared-chicken'', imagePath = Some ''/chicken-main.jpg'',
     nutrition = Some [\<lparr>nutr_amount = Val (PyInt 2720)\<rparr>, \<lparr>nutr_amount = Val (PyInt 650)\<rparr>],
     ingredients = Some [\<lparr>ingr_name = Val ''Salt'', ingr_imagePath = Null\<rparr>,
                         \<lparr>ingr_name = Val ''Chicken Breast'', ingr_imagePath = Val ''/chicken.png''\<rparr>,
                         \<lparr>ingr_name = Val ''salt'', ingr_imagePath = Null\<rparr>],
     steps = Some [\<lparr>images = Val [\<lparr>path = Val ''/step-1.jpg''\<rparr>], instructions = Val ''Sear the chicken.''\<rparr>,
                   \<lparr>images = Val [], instructions = Val ''Serve.''\<rparr>],
     yields = Some [\<lparr>yield_ingredients =
       Val [\<lparr>amount = Null, unit = Null\<rparr>,
            \<lparr>amount = Val (PyInt 2), unit = Val ''unit''\<rparr>,
            \<lparr>amount = Val (PyFloat 25 2), unit = Val ''teaspoon''\<rparr>]\<rparr>]\<rparr>"

definition after_supper :: state where
  "after_supper = snd (process_recipe online supper empty_disk)"

text \<open>
  A collection of three recipes, the first one twice, and the state after the batch was run
  over it on an empty disk by a machine of four processors.
\<close>

definition menu :: "recipe list" where
  "menu = [supper, soup, supper]"

definition after_menu :: state where
  "after_menu = snd (process_all_recipes online (Some 4) menu empty_disk)"

section \<open>Properties\<close>

subsection \<open>Auxiliary facts\<close>

lemma bind_err_simps:
  "bind_err (Inl e) f = Inl e"
  "bind_err (Inr v) f = f v"
  by (simp_all add: bind_err_def)

lemma bind_simps:
  "bind (ret v) f = f v"
  "bind (lift (Inr v)) f = f v"
  "bind (lift (Inl e)) f st = (Inl e, st)"
  by (simp_all add: bind_def ret_def lift_def fun_eq_iff)

lemma bind_Inr:
  "bind m f st = (Inr v, st') \<longleftrightarrow> (\<exists>w st1. m st = (Inr w, st1) \<and> f w st1 = (Inr v, st'))"
  by (auto simp: bind_def split: prod.splits sum.splits)

lemma bind_Inl:
  "bind m f st = (Inl e, st') \<longleftrightarrow>
     m st = (Inl e, st') \<or> (\<exists>w st1. m st = (Inr w, st1) \<and> f w st1 = (Inl e, st'))"
  by (auto simp: bind_def split: prod.splits sum.splits)

lemma lift_eq: "lift r st = (r', st') \<longleftrightarrow> r = r' \<and> st = st'"
  by (auto simp: lift_def)

lemma ret_eq: "ret v st = (r, st') \<longleftrightarrow> r = Inr v \<and> st = st'"
  by (auto simp: ret_def)

lemma getitem_not_Missing: "x \<noteq> Missing \<Longrightarrow> \<exists>v. getitem x = Inr v"
  by (cases x) simp_all

lemma floor_quarter: "math_floor (truediv n 4) = n div 4"
  unfolding math_floor_def truediv_def by (rule floor_divide_of_int_eq)

lemma ceil_quarter: "math_ceil (truediv n 4) = - ((- n) div 4)"
  unfolding math_ceil_def truediv_def
  by (simp only: ceiling_def floor_divide_of_int_eq of_int_minus[symmetric] minus_divide_left)

lemma amount_str_10_5: "amount_str (Some (PyFloat 105 1)) = CHR ''1'' # half"
  by code_simp

subsection \<open>The portion lines\<close>

text \<open>
  C1. The claim: a numeric amount is printed as the glyph for a quarter, a half or three
  quarters exactly when it equals 0.25, 0.5 or 0.75, and as \<^verbatim>\<open>str(amount)\<close> otherwise.
  The program substitutes inside \<^verbatim>\<open>str(amount)\<close> wherever the digits \<^verbatim>\<open>0.25\<close>,
  \<^verbatim>\<open>0.5\<close> or \<^verbatim>\<open>0.75\<close> occur: the amount 10.5, which is not a half and prints as
  \<^verbatim>\<open>10.5\<close>, comes out as 1 followed by the glyph for a half.
\<close>

theorem fraction_glyph_inside_longer_amount:
  "num_val (PyFloat 105 1) \<noteq> 1 / 2 \<and> py_str (PyFloat 105 1) = ''10.5''
   \<and> get_ingredient_details soup 0
       = Inr (Some (CHR ''1'' # half @ '' ounces''), Some ''Crushed Tomatoes'')"
  by (simp add: soup_def get_ingredient_details_def bind_err_simps amount_str_10_5, code_simp)

text \<open>
  C3. The claim: the function returns a pair of lines for every recipe and every index of
  an ingredient. It raises where the parallel list of amounts has no entry: with one
  ingredient and an empty \<^verbatim>\<open>yields\<close>, \<^verbatim>\<open>recipe.yields[0]\<close> is an IndexError.
\<close>

theorem no_yields_raises:
  "ingredients (soup\<lparr>yields := Some []\<rparr>)
     = Some [\<lparr>ingr_name = Val ''Crushed Tomatoes'', ingr_imagePath = Null\<rparr>]
   \<and> get_ingredient_details (soup\<lparr>yields := Some []\<rparr>) 0 = Inl IndexError"
  by (simp add: soup_def get_ingredient_details_def bind_err_simps)

text \<open>
  C3, amended. The function returns a pair of lines whenever \<^verbatim>\<open>yields[0]['ingredients']\<close>
  has an entry at the index with the keys \<^verbatim>\<open>amount\<close> and \<^verbatim>\<open>unit\<close> (null or not) and
  the ingredient at the index has the key \<^verbatim>\<open>name\<close>.
\<close>

theorem get_ingredient_details_returns:
  assumes "yields recipe = Some (y # ys)"
    and "yield_ingredients y = Val es"
    and "idx < length es"
    and "amount (es ! idx) \<noteq> Missing"
    and "unit (es ! idx) \<noteq> Missing"
    and "ingredients recipe = Some gs"
    and "idx < length gs"
    and "ingr_name (gs ! idx) \<noteq> Missing"
  shows "\<exists>ln_1 ln_2. get_ingredient_details recipe idx = Inr (ln_1, ln_2)"
proof -
  obtain a where a: "getitem (amount (es ! idx)) = Inr a"
    using assms(4) getitem_not_Missing by blast
  obtain u where u: "getitem (unit (es ! idx)) = Inr u"
    using assms(5) getitem_not_Missing by blast
  obtain n where n: "getitem (ingr_name (gs ! idx)) = Inr n"
    using assms(8) getitem_not_Missing by blast
  show ?thesis
    using assms(1,2,3,6,7) a u n
    by (cases u) (simp_all add: get_ingredient_details_def bind_err_simps)
qed

theorem get_ingredient_details_returns_witness:
  "\<exists>ln_1 ln_2. get_ingredient_details soup 0 = Inr (ln_1, ln_2)"
  by (rule get_ingredient_details_returns
        [where y = "\<lparr>yield_ingredients = Val [\<lparr>amount = Val (PyFloat 105 1), unit = Val ''ounce''\<rparr>]\<rparr>"
           and ys = "[]" and es = "[\<lparr>amount = Val (PyFloat 105 1), unit = Val ''ounce''\<rparr>]"
           and gs = "[\<lparr>ingr_name = Val ''Crushed Tomatoes'', ingr_imagePath = Null\<rparr>]"])
     (simp_all add: soup_def)

text \<open>
  C7. Where the entry and the name are read as \<open>amt\<close>, \<open>units\<close> and \<open>nm\<close>: a null unit
  gives the name and an empty second line; the unit \<^verbatim>\<open>unit\<close> gives the amount string
  alone and the name; any other unit gives amount string, space, unit, and an \<^verbatim>\<open>s\<close>
  exactly when the amount is a number greater than 1, with the name as second line.
\<close>

theorem get_ingredient_details_branches:
  assumes "yields recipe = Some (y # ys)"
    and "yield_ingredients y = Val es"
    and "idx < length es"
    and "getitem (amount (es ! idx)) = Inr amt"
    and "getitem (unit (es ! idx)) = Inr units"
    and "ingredients recipe = Some gs"
    and "idx < length gs"
    and "getitem (ingr_name (gs ! idx)) = Inr nm"
  shows "get_ingredient_details recipe idx =
     Inr (case units of
            None \<Rightarrow> (nm, Some [])
          | Some u \<Rightarrow>
              if u = ''unit'' then (Some (amount_str amt), nm)
              else (Some (amount_str amt @ '' '' @ u
                          @ (if \<exists>n. amt = Some n \<and> 1 < num_val n then ''s'' else [])), nm))"
proof (cases units)
  case None
  then show ?thesis
    using assms by (simp add: get_ingredient_details_def bind_err_simps)
next
  case (Some u)
  have "pluralise amt = (if \<exists>n. amt = Some n \<and> 1 < num_val n then ''s'' else [])"
    by (cases amt) simp_all
  with Some show ?thesis
    using assms by (simp add: get_ingredient_details_def bind_err_simps)
qed

theorem get_ingredient_details_branches_witness:
  "get_ingredient_details soup 0 =
     Inr (Some (amount_str (Some (PyFloat 105 1)) @ '' ounces''), Some ''Crushed Tomatoes'')"
  using get_ingredient_details_branches
        [where recipe = soup and idx = 0
           and y = "\<lparr>yield_ingredients = Val [\<lparr>amount = Val (PyFloat 105 1), unit = Val ''ounce''\<rparr>]\<rparr>"
           and ys = "[]" and es = "[\<lparr>amount = Val (PyFloat 105 1), unit = Val ''ounce''\<rparr>]"
           and gs = "[\<lparr>ingr_name = Val ''Crushed Tomatoes'', ingr_imagePath = Null\<rparr>]"
           and amt = "Some (PyFloat 105 1)" and units = "Some ''ounce''" and nm = "Some ''Crushed Tomatoes''"]
  by (simp add: soup_def)

subsection \<open>Before the page is composed\<close>

text \<open>
  C2. The claim: a name containing \<^verbatim>\<open>' with'\<close> is split there into name and headline,
  and the derivation never fails. With a second \<^verbatim>\<open>' with'\<close> in the name the split has three
  parts, the tuple assignment raises ValueError, and the recipe is not processed.
\<close>

theorem second_with_raises:
  "split_name (soup\<lparr>name := Some ''Chicken with Rice with Beans''\<rparr>) = Inl ValueError
   \<and> process_recipe online (soup\<lparr>name := Some ''Chicken with Rice with Beans''\<rparr>) empty_disk
       = (Inl ValueError, empty_disk)"
proof -
  have "split_name (soup\<lparr>name := Some ''Chicken with Rice with Beans''\<rparr>) = Inl ValueError"
    by (simp add: split_name_def, code_simp)
  then show ?thesis
    by (simp add: process_recipe_def soup_def bind_simps)
qed

theorem second_with_raises_witness:
  "fst (process_recipe online (soup\<lparr>name := Some ''Chicken with Rice with Beans''\<rparr>) empty_disk)
     = Inl ValueError"
  using second_with_raises by simp

text \<open>
  C4. A recipe whose steps or whose ingredients are empty is left alone: the function
  returns, and no file, directory or request is added to the state.
\<close>

theorem process_recipe_malformed:
  assumes "steps recipe = Some [] \<or> ingredients recipe = Some []"
  shows "process_recipe self recipe st = (Inr (), st)"
  using assms by (auto simp: process_recipe_def ret_def)

theorem process_recipe_malformed_witness:
  "process_recipe online (soup\<lparr>steps := Some []\<rparr>) empty_disk = (Inr (), empty_disk)"
  by (rule process_recipe_malformed) simp

subsection \<open>Failures and repeated runs\<close>

lemma only_pictures_added_refl: "only_pictures_added st st"
  by (simp add: only_pictures_added_def)

lemma only_pictures_added_trans:
  "only_pictures_added st st1 \<Longrightarrow> only_pictures_added st1 st2 \<Longrightarrow> only_pictures_added st st2"
  unfolding only_pictures_added_def by metis

lemma fetches_only_ret: "fetches_only self (ret v)"
  by (simp add: fetches_only_def ret_def only_pictures_added_refl)

lemma fetches_only_lift: "\<forall>link. r \<noteq> Inl (FetchFailed link) \<Longrightarrow> fetches_only self (lift r)"
  by (auto simp: fetches_only_def lift_def only_pictures_added_refl)

lemma fetches_only_bind:
  assumes "fetches_only self m" and "\<And>v. fetches_only self (f v)"
  shows "fetches_only self (bind m f)"
  unfolding fetches_only_def
proof (intro allI impI)
  fix st r st'
  assume run: "bind m f st = (r, st')"
  show "only_pictures_added st st' \<and> (\<forall>link. r = Inl (FetchFailed link) \<longrightarrow> status_code self link \<noteq> 200)"
  proof (cases "m st")
    case (Pair r1 st1)
    show ?thesis
    proof (cases r1)
      case (Inl e)
      with Pair run assms(1) show ?thesis
        by (auto simp: bind_def fetches_only_def)
    next
      case (Inr v)
      with Pair run have "f v st1 = (r, st')"
        by (simp add: bind_def)
      with assms(2)[of v] have "only_pictures_added st1 st'"
        and "\<forall>link. r = Inl (FetchFailed link) \<longrightarrow> status_code self link \<noteq> 200"
        by (auto simp: fetches_only_def)
      moreover from Pair assms(1) have "only_pictures_added st st1"
        by (auto simp: fetches_only_def)
      ultimately show ?thesis
        using only_pictures_added_trans by blast
    qed
  qed
qed

lemma fetches_only_save_image: "fetches_only self (save_image self url nm ext height)"
  unfolding fetches_only_def
  by (auto simp: save_image_def Let_def bind_def isfile_def ret_def lift_def http_get_def
                 write_file_def only_pictures_added_def split: option.splits if_splits)

lemma get_ingredient_details_no_fetch: "get_ingredient_details recipe idx \<noteq> Inl (FetchFailed link)"
  by (auto simp: get_ingredient_details_def bind_err_def
           split: sum.splits option.splits if_splits field.splits elim!: subscript.elims getitem.elims)

lemma getitem_no_fetch: "getitem x \<noteq> Inl (FetchFailed link)"
  by (cases x) simp_all

lemma subscript_no_fetch: "subscript xs i \<noteq> Inl (FetchFailed link)"
  by (cases xs) simp_all

lemma py_enumerate_no_fetch: "py_enumerate xs \<noteq> Inl (FetchFailed link)"
  by (cases xs) simp_all

lemma fetches_only_ingredient_body: "fetches_only self (ingredient_body self recipe idx ingr acc)"
  unfolding ingredient_body_def Let_def
  by (auto intro!: fetches_only_bind fetches_only_ret fetches_only_lift fetches_only_save_image
           simp: getitem_no_fetch get_ingredient_details_no_fetch split: prod.splits)

lemma fetches_only_ingredients_loop: "fetches_only self (ingredients_loop self recipe xs acc)"
  by (induction xs arbitrary: acc)
     (auto intro!: fetches_only_bind fetches_only_ret fetches_only_ingredient_body)

lemma fetches_only_step_body: "fetches_only self (step_body self recipe steps_y idx stp pdf)"
  unfolding step_body_def
  by (auto intro!: fetches_only_bind fetches_only_ret fetches_only_lift fetches_only_save_image
           simp: getitem_no_fetch split: option.splits list.splits)

lemma fetches_only_steps_loop: "fetches_only self (steps_loop self recipe steps_y xs pdf)"
  by (induction xs arbitrary: pdf)
     (auto intro!: fetches_only_bind fetches_only_ret fetches_only_step_body)

lemma nutrition_no_fetch:
  "bind_err (subscript (nutrition recipe) i) (\<lambda>n. getitem (nutr_amount n)) \<noteq> Inl (FetchFailed link)"
  by (auto simp: bind_err_def getitem_no_fetch subscript_no_fetch split: sum.splits)

lemma fetches_only_compose: "fetches_only self (compose self recipe)"
  unfolding compose_def Let_def
  by (auto intro!: fetches_only_bind fetches_only_ret fetches_only_lift fetches_only_save_image
                   fetches_only_ingredients_loop fetches_only_steps_loop
           simp: getitem_no_fetch nutrition_no_fetch py_enumerate_no_fetch split: prod.splits)

lemma split_name_no_fetch: "split_name recipe \<noteq> Inl (FetchFailed link)"
  by (auto simp: split_name_def split: option.splits list.splits)

text \<open>
  C8. When \<open>process_recipe\<close> fails on a picture (a response whose status is not 200), every
  document on the disk afterwards was there before with the same content: the recipe's
  document is written last, after every fetch and every drawing call, so none is written.
\<close>

theorem failed_fetch_writes_no_document:
  assumes "process_recipe self recipe st = (Inl (FetchFailed link), st')"
  shows "status_code self link \<noteq> 200
         \<and> (\<forall>p pdf. files st' p = Some (Pdf pdf) \<longrightarrow> files st p = Some (Pdf pdf))"
proof -
  from assms obtain r1 st1 where
    run: "compose self r1 st1 = (Inl (FetchFailed link), st')" and
    before: "files st1 = files st"
    by (auto simp: process_recipe_def Let_def bind_Inl bind_Inr lift_eq ret_eq split_name_no_fetch
                   path_exists_def get_or_make_dir_def write_file_def
             split: if_splits option.splits)
  from run fetches_only_compose[of self r1]
  have "only_pictures_added st1 st'" and "status_code self link \<noteq> 200"
    by (auto simp: fetches_only_def)
  with before show ?thesis
    by (auto simp: only_pictures_added_def) (metis content.distinct(1) option.inject option.distinct(1))
qed

theorem failed_fetch_writes_no_document_witness:
  "fst (process_recipe flaky supper empty_disk)
     = Inl (FetchFailed (IMAGE_URL ''jpg'' 400 @ ''/step-1.jpg''))
   \<and> status_code flaky (IMAGE_URL ''jpg'' 400 @ ''/step-1.jpg'') \<noteq> 200
   \<and> files (snd (process_recipe flaky supper empty_disk)) ''tmp/seared-chicken-main.jpg''
       = Some (Image (IMAGE_URL ''jpg'' 600 @ ''/chicken-main.jpg''))
   \<and> (\<forall>p pdf. files (snd (process_recipe flaky supper empty_disk)) p \<noteq> Some (Pdf pdf))"
proof -
  have r: "fst (process_recipe flaky supper empty_disk)
             = Inl (FetchFailed (IMAGE_URL ''jpg'' 400 @ ''/step-1.jpg''))"
    by code_simp
  have cached: "files (snd (process_recipe flaky supper empty_disk)) ''tmp/seared-chicken-main.jpg''
       = Some (Image (IMAGE_URL ''jpg'' 600 @ ''/chicken-main.jpg''))"
    by code_simp
  from r have run: "process_recipe flaky supper empty_disk
      = (Inl (FetchFailed (IMAGE_URL ''jpg'' 400 @ ''/step-1.jpg'')),
         snd (process_recipe flaky supper empty_disk))"
    by (simp add: prod_eq_iff)
  from failed_fetch_writes_no_document[OF run] r cached show ?thesis
    by (auto simp: empty_disk_def)
qed

lemma make_dir_again: "d \<in> dirs st \<Longrightarrow> st\<lparr>dirs := insert d (dirs st)\<rparr> = st"
  by (simp add: insert_absorb)

lemma process_recipe_unfold:
  assumes "truthy (steps recipe)" and "truthy (ingredients recipe)" and "split_name recipe = Inr r"
  shows "process_recipe self recipe st =
     (let st1 = (case author r of None \<Rightarrow> st
                 | Some a \<Rightarrow> st\<lparr>dirs := insert (path_join (RECIPE_DIR self) a) (dirs st)\<rparr>)
      in if files st (output_path self r) \<noteq> None \<or> output_path self r \<in> dirs st1 then (Inr (), st1)
         else bind (compose self r) (\<lambda>pdf. write_file (output_path self r) (Pdf pdf)) st1)"
  using assms
  by (cases "author r")
     (simp_all add: process_recipe_def bind_simps Let_def output_path_def bind_def ret_def
                    path_exists_def get_or_make_dir_def)

lemma process_recipe_done:
  assumes "process_recipe self recipe st = (Inr (), st1)"
    and "truthy (steps recipe)" and "truthy (ingredients recipe)"
  shows "\<exists>r. split_name recipe = Inr r
           \<and> (files st1 (output_path self r) \<noteq> None \<or> output_path self r \<in> dirs st1)
           \<and> (\<forall>a. author r = Some a \<longrightarrow> path_join (RECIPE_DIR self) a \<in> dirs st1)"
proof -
  from assms obtain r where r: "split_name recipe = Inr r"
    by (cases "split_name recipe") (auto simp: process_recipe_def bind_simps)
  define st0 where "st0 = (case author r of None \<Rightarrow> st
                 | Some a \<Rightarrow> st\<lparr>dirs := insert (path_join (RECIPE_DIR self) a) (dirs st)\<rparr>)"
  have made: "\<forall>a. author r = Some a \<longrightarrow> path_join (RECIPE_DIR self) a \<in> dirs st0"
    by (auto simp: st0_def)
  have files0: "files st0 = files st"
    by (auto simp: st0_def split: option.splits)
  show ?thesis
  proof (cases "files st (output_path self r) \<noteq> None \<or> output_path self r \<in> dirs st0")
    case True
    with assms r have "st1 = st0"
      by (simp add: process_recipe_unfold st0_def)
    with True made files0 r show ?thesis by auto
  next
    case False
    with assms r obtain pdf st2 where
      c: "compose self r st0 = (Inr pdf, st2)" and
      w: "write_file (output_path self r) (Pdf pdf) st2 = (Inr (), st1)"
      by (auto simp: process_recipe_unfold st0_def[symmetric] bind_Inr)
    from c fetches_only_compose[of self r] have "dirs st2 = dirs st0"
      by (auto simp: fetches_only_def only_pictures_added_def)
    with w made r show ?thesis
      by (auto simp: write_file_def)
  qed
qed

lemma supper_done: "process_recipe online supper empty_disk = (Inr (), after_supper)"
proof -
  have "fst (process_recipe online supper empty_disk) = Inr ()"
    by code_simp
  then show ?thesis
    by (simp add: prod_eq_iff after_supper_def)
qed

lemma supper_split:
  "split_name supper
     = Inr (supper\<lparr>name := Some ''Seared Chicken'', headline := Some ''With Lemon Sauce''\<rparr>)"
proof -
  have "contains '' with'' ''Seared Chicken with Lemon Sauce''"
    by code_simp
  moreover have "split '' with'' ''Seared Chicken with Lemon Sauce''
                   = [''Seared Chicken'', '' Lemon Sauce'']"
    by code_simp
  ultimately show ?thesis
    by (simp add: split_name_def supper_def)
qed

lemma kept_refl: "kept st st"
  by (simp add: kept_def)

lemma kept_trans: "kept a b \<Longrightarrow> kept b c \<Longrightarrow> kept a c"
  unfolding kept_def using map_le_trans by blast

lemma only_pictures_added_kept: "only_pictures_added st st' \<Longrightarrow> kept st st'"
  unfolding only_pictures_added_def kept_def map_le_def
  by (metis domIff order_refl)

lemma process_recipe_kept:
  assumes "process_recipe self recipe st = (res, st')"
  shows "kept st st'"
proof (cases "truthy (steps recipe) \<and> truthy (ingredients recipe)")
  case False
  with assms show ?thesis
    by (auto simp: process_recipe_def ret_def kept_refl)
next
  case True
  show ?thesis
  proof (cases "split_name recipe")
    case (Inl e)
    with True assms show ?thesis
      by (auto simp: process_recipe_def bind_simps kept_refl)
  next
    case (Inr r)
    define st0 where "st0 = (case author r of None \<Rightarrow> st
                 | Some a \<Rightarrow> st\<lparr>dirs := insert (path_join (RECIPE_DIR self) a) (dirs st)\<rparr>)"
    have k0: "kept st st0" and files0: "files st0 = files st"
      by (auto simp: st0_def kept_def split: option.splits)
    show ?thesis
    proof (cases "files st (output_path self r) \<noteq> None \<or> output_path self r \<in> dirs st0")
      case found: True
      with assms True Inr have "st' = st0"
        by (simp add: process_recipe_unfold st0_def)
      with k0 show ?thesis by simp
    next
      case free: False
      with assms True Inr
      have run: "bind (compose self r) (\<lambda>pdf. write_file (output_path self r) (Pdf pdf)) st0 = (res, st')"
        by (simp add: process_recipe_unfold st0_def[symmetric])
      obtain r2 st2 where c: "compose self r st0 = (r2, st2)"
        by (cases "compose self r st0")
      with fetches_only_compose[of self r] have "only_pictures_added st0 st2"
        by (auto simp: fetches_only_def)
      then have k2: "kept st0 st2"
        by (rule only_pictures_added_kept)
      show ?thesis
      proof (cases r2)
        case (Inl e)
        with run c have "st' = st2"
          by (simp add: bind_def)
        with k0 k2 show ?thesis
          using kept_trans by blast
      next
        case (Inr pdf)
        with run c have st': "st' = st2\<lparr>files := (files st2)(output_path self r \<mapsto> Pdf pdf)\<rparr>"
          by (simp add: bind_def write_file_def)
        from free files0 have "files st0 (output_path self r) = None"
          by simp
        with k2 have "kept st0 st'"
          unfolding st' kept_def map_le_def by (auto simp: domIff)
        with k0 show ?thesis
          using kept_trans by blast
      qed
    qed
  qed
qed

lemma process_recipe_again:
  assumes run: "process_recipe self recipe st0 = (Inr (), st1)"
    and sub: "kept st1 st2"
  shows "process_recipe (self\<lparr>status_code := answers\<rparr>) recipe st2 = (Inr (), st2)"
proof (cases "truthy (steps recipe) \<and> truthy (ingredients recipe)")
  case False
  then show ?thesis
    by (auto simp: process_recipe_def ret_def)
next
  case True
  with run obtain r where r: "split_name recipe = Inr r"
    and out: "files st1 (output_path self r) \<noteq> None \<or> output_path self r \<in> dirs st1"
    and made: "\<forall>a. author r = Some a \<longrightarrow> path_join (RECIPE_DIR self) a \<in> dirs st1"
    using process_recipe_done by blast
  from out sub have out2: "files st2 (output_path self r) \<noteq> None \<or> output_path self r \<in> dirs st2"
    by (auto simp: kept_def map_le_def dom_def)
  have same: "output_path (self\<lparr>status_code := answers\<rparr>) r = output_path self r"
    by (simp add: output_path_def split: option.splits)
  show ?thesis
  proof (cases "author r")
    case None
    with True r out2 same show ?thesis
      by (auto simp: process_recipe_unfold)
  next
    case (Some a)
    with made sub have "path_join (RECIPE_DIR self) a \<in> dirs st2"
      by (auto simp: kept_def)
    with Some True r out2 same show ?thesis
      by (auto simp: process_recipe_unfold make_dir_again)
  qed
qed

lemma mapstar_kept: "mapstar self rs st = (res, st') \<Longrightarrow> kept st st'"
proof (induction rs arbitrary: st)
  case Nil
  then show ?case by (simp add: ret_def kept_refl)
next
  case (Cons r rs)
  obtain r1 st1 where p: "process_recipe self r st = (r1, st1)"
    by (cases "process_recipe self r st")
  then have k1: "kept st st1"
    by (rule process_recipe_kept)
  show ?case
  proof (cases r1)
    case (Inl e)
    with Cons.prems p have "st' = st1"
      by (simp add: bind_def)
    with k1 show ?thesis by simp
  next
    case (Inr u)
    with Cons.prems p have "mapstar self rs st1 = (res, st')"
      by (simp add: bind_def)
    from Cons.IH[OF this] k1 show ?thesis
      using kept_trans by blast
  qed
qed

lemma mapstar_again:
  assumes "mapstar self rs st0 = (Inr (), st1)" and "kept st1 st2"
  shows "mapstar (self\<lparr>status_code := answers\<rparr>) rs st2 = (Inr (), st2)"
  using assms
proof (induction rs arbitrary: st0)
  case Nil
  then show ?case by (simp add: ret_def)
next
  case (Cons r rs)
  from Cons.prems(1) obtain sta where
    p: "process_recipe self r st0 = (Inr (), sta)" and
    rest: "mapstar self rs sta = (Inr (), st1)"
    by (auto simp: bind_Inr)
  from rest have "kept sta st1"
    by (rule mapstar_kept)
  with Cons.prems(2) have "kept sta st2"
    using kept_trans by blast
  with p have "process_recipe (self\<lparr>status_code := answers\<rparr>) r st2 = (Inr (), st2)"
    by (rule process_recipe_again)
  moreover from Cons.IH[OF rest Cons.prems(2)]
  have "mapstar (self\<lparr>status_code := answers\<rparr>) rs st2 = (Inr (), st2)" .
  ultimately show ?case
    by (simp add: bind_def)
qed

lemma run_tasks_kept: "run_tasks self cs st = (res, st') \<Longrightarrow> kept st st'"
proof (induction cs arbitrary: st res st')
  case Nil
  then show ?case by (simp add: kept_refl)
next
  case (Cons c cs)
  obtain r1 st1 where m: "mapstar self c st = (r1, st1)"
    by (cases "mapstar self c st")
  obtain r2 st2 where t: "run_tasks self cs st1 = (r2, st2)"
    by (cases "run_tasks self cs st1")
  from Cons.prems m t have "st' = st2"
    by (auto split: sum.splits)
  with mapstar_kept[OF m] Cons.IH[OF t] show ?case
    using kept_trans by blast
qed

lemma run_tasks_again:
  assumes "run_tasks self cs st0 = (Inr (), st1)" and "kept st1 st2"
  shows "run_tasks (self\<lparr>status_code := answers\<rparr>) cs st2 = (Inr (), st2)"
  using assms
proof (induction cs arbitrary: st0)
  case Nil
  then show ?case by simp
next
  case (Cons c cs)
  obtain r1 sta where m: "mapstar self c st0 = (r1, sta)"
    by (cases "mapstar self c st0")
  obtain r2 stb where t: "run_tasks self cs sta = (r2, stb)"
    by (cases "run_tasks self cs sta")
  from Cons.prems(1) m t have ok: "r1 = Inr ()" "r2 = Inr ()" "stb = st1"
    by (auto split: sum.splits)
  from t ok have "kept sta st1"
    using run_tasks_kept by blast
  with Cons.prems(2) have "kept sta st2"
    using kept_trans by blast
  with m ok have "mapstar (self\<lparr>status_code := answers\<rparr>) c st2 = (Inr (), st2)"
    using mapstar_again by blast
  moreover from t ok Cons.IH Cons.prems(2)
  have "run_tasks (self\<lparr>status_code := answers\<rparr>) cs st2 = (Inr (), st2)"
    by blast
  ultimately show ?case
    by simp
qed

lemma process_all_recipes_kept:
  "process_all_recipes self cpu_count recipes st = (res, st') \<Longrightarrow> kept st st'"
  using run_tasks_kept
  by (auto simp: process_all_recipes_def Let_def lift_def kept_refl split: if_splits)

lemma process_all_recipes_again:
  assumes "process_all_recipes self cpu_count recipes st0 = (Inr (), st1)"
  shows "process_all_recipes (self\<lparr>status_code := answers\<rparr>) cpu_count recipes st1 = (Inr (), st1)"
  using assms run_tasks_again[OF _ kept_refl]
  by (simp add: process_all_recipes_def Let_def lift_def split: if_splits)

lemma menu_done: "process_all_recipes online (Some 4) menu empty_disk = (Inr (), after_menu)"
proof -
  have "fst (process_all_recipes online (Some 4) menu empty_disk) = Inr ()"
    by code_simp
  then show ?thesis
    by (simp add: prod_eq_iff after_menu_def)
qed

text \<open>
  C9. A recipe whose document exists at its path is left after the check: no file and no
  request is added. \<open>save_image\<close> on a name whose file is in the cache returns the path and
  leaves the state as it is. A recipe that \<open>process_recipe\<close> has returned from is a
  no-operation in every later state that still has the files and the directories, whatever
  the server answers then. A run of \<open>process_all_recipes\<close>, whatever it returns, keeps every
  file with its content and every directory that was there. Hence, when
  \<open>process_all_recipes\<close> has returned from a collection, a second run over the same
  collection in the state the first one left returns and leaves that state as it is: no
  file is written, no directory made and no request sent, whatever the server answers.
\<close>

theorem rendering_idempotent:
  "(split_name recipe = Inr r \<longrightarrow> files st (output_path self r) \<noteq> None \<longrightarrow>
      (\<exists>st'. process_recipe self recipe st = (Inr (), st')
             \<and> files st' = files st \<and> requests st' = requests st))
   \<and> (files st (path_join (TEMP_DIR self) (nm @ ''.'' @ ext)) \<noteq> None \<longrightarrow>
        save_image self url nm ext height st = (Inr (path_join (TEMP_DIR self) (nm @ ''.'' @ ext)), st))
   \<and> (process_recipe self recipe st0 = (Inr (), st1) \<longrightarrow>
        files st1 \<subseteq>\<^sub>m files st2 \<longrightarrow> dirs st1 \<subseteq> dirs st2 \<longrightarrow>
        process_recipe (self\<lparr>status_code := answers\<rparr>) recipe st2 = (Inr (), st2))
   \<and> (process_all_recipes self cpu_count recipes sa = (res, sb) \<longrightarrow>
        files sa \<subseteq>\<^sub>m files sb \<and> dirs sa \<subseteq> dirs sb)
   \<and> (process_all_recipes self cpu_count recipes sa = (Inr (), sb) \<longrightarrow>
        process_all_recipes (self\<lparr>status_code := answers\<rparr>) cpu_count recipes sb = (Inr (), sb))"
proof (intro conjI impI)
  assume r: "split_name recipe = Inr r" and found: "files st (output_path self r) \<noteq> None"
  show "\<exists>st'. process_recipe self recipe st = (Inr (), st')
             \<and> files st' = files st \<and> requests st' = requests st"
  proof (cases "truthy (steps recipe) \<and> truthy (ingredients recipe)")
    case True
    with r found show ?thesis
      by (cases "author r") (simp_all add: process_recipe_unfold)
  next
    case False
    then show ?thesis
      by (auto simp: process_recipe_def ret_def)
  qed
next
  assume "files st (path_join (TEMP_DIR self) (nm @ ''.'' @ ext)) \<noteq> None"
  then show "save_image self url nm ext height st
               = (Inr (path_join (TEMP_DIR self) (nm @ ''.'' @ ext)), st)"
    by (simp add: save_image_def Let_def bind_def isfile_def ret_def)
next
  assume "process_recipe self recipe st0 = (Inr (), st1)"
    and "files st1 \<subseteq>\<^sub>m files st2" "dirs st1 \<subseteq> dirs st2"
  then show "process_recipe (self\<lparr>status_code := answers\<rparr>) recipe st2 = (Inr (), st2)"
    using process_recipe_again by (simp add: kept_def)
next
  assume "process_all_recipes self cpu_count recipes sa = (res, sb)"
  then have "kept sa sb"
    by (rule process_all_recipes_kept)
  then show "files sa \<subseteq>\<^sub>m files sb" and "dirs sa \<subseteq> dirs sb"
    by (simp_all add: kept_def)
next
  assume "process_all_recipes self cpu_count recipes sa = (Inr (), sb)"
  then show "process_all_recipes (self\<lparr>status_code := answers\<rparr>) cpu_count recipes sb = (Inr (), sb)"
    by (rule process_all_recipes_again)
qed

theorem rendering_idempotent_witness:
  "(\<exists>st'. process_recipe online supper after_supper = (Inr (), st')
          \<and> files st' = files after_supper \<and> requests st' = requests after_supper)
   \<and> save_image online (Some ''/chicken-main.jpg'') ''seared-chicken-main'' ''jpg'' 600 after_supper
       = (Inr (path_join (TEMP_DIR online) (''seared-chicken-main'' @ ''.'' @ ''jpg'')), after_supper)
   \<and> process_recipe (online\<lparr>status_code := (\<lambda>link. 404)\<rparr>) supper after_supper
       = (Inr (), after_supper)
   \<and> files empty_disk \<subseteq>\<^sub>m files after_menu \<and> dirs empty_disk \<subseteq> dirs after_menu
   \<and> process_all_recipes online (Some 4) menu empty_disk = (Inr (), after_menu)
   \<and> process_all_recipes (online\<lparr>status_code := (\<lambda>link. 404)\<rparr>) (Some 4) menu after_menu
       = (Inr (), after_menu)"
proof -
  have doc: "files after_supper
               (output_path online
                  (supper\<lparr>name := Some ''Seared Chicken'', headline := Some ''With Lemon Sauce''\<rparr>))
             \<noteq> None"
    by code_simp
  have pic: "files after_supper (path_join (TEMP_DIR online) (''seared-chicken-main'' @ ''.'' @ ''jpg''))
             \<noteq> None"
    by code_simp
  from rendering_idempotent
         [where recipe = supper
            and r = "supper\<lparr>name := Some ''Seared Chicken'', headline := Some ''With Lemon Sauce''\<rparr>"
            and st = after_supper and self = online and nm = "''seared-chicken-main''"
            and ext = "''jpg''" and url = "Some ''/chicken-main.jpg''" and height = 600
            and ?st0.0 = empty_disk and ?st1.0 = after_supper and ?st2.0 = after_supper
            and answers = "\<lambda>link. 404" and cpu_count = "Some 4" and recipes = menu
            and sa = empty_disk and res = "Inr ()" and sb = after_menu]
       supper_split doc pic supper_done menu_done
  show ?thesis
    by simp
qed

subsection \<open>The page\<close>

lemma excluded_iff: "excluded ingr \<longleftrightarrow> (\<exists>nm. getitem (ingr_name ingr) = Inr nm \<and> is_common nm)"
proof (cases "ingr_name ingr")
  case (Val n)
  then show ?thesis by (auto simp: excluded_def)
qed (auto simp: excluded_def)

lemma ingredient_body_excluded:
  "excluded ingr \<Longrightarrow> ingredient_body self recipe idx ingr acc = ret acc"
  by (cases acc) (auto simp: excluded_iff ingredient_body_def bind_simps)

lemma ingredient_body_rendered:
  assumes "ingredient_body self recipe idx ingr (pdf, n) st = (Inr (pdf', n'), st')"
    and "\<not> excluded ingr"
  shows "n' = n + 1 \<and>
    (\<exists>ln_1 ln_2 pics.
       get_ingredient_details recipe idx = Inr (ln_1, ln_2)
       \<and> pdf' = pdf @ pics @ [Text 9 (22 + 46 * (n mod 4)) (66 + 13 * (n div 4)) ln_1,
                               Text 7 (22 + 46 * (n mod 4)) (70 + 13 * (n div 4)) ln_2]
       \<and> (pics = [] \<or> (\<exists>f. pics = [Picture f (10 + 46 * (n mod 4)) (62 + 13 * (n div 4)) (H 12)])))"
  using assms
  by (auto simp: ingredient_body_def bind_Inr lift_eq ret_eq excluded_iff floor_quarter Let_def
                 write_pdf_def image_def split: if_splits)



lemma step_picture:
  assumes "(case imgs of
              Some (first # _) \<Rightarrow>
                bind (lift (getitem (path first))) (\<lambda>p.
                  if truthy p then
                    bind (save_image self p nm ext height) (\<lambda>img. ret (image pdf img 10 y (W 36)))
                  else ret pdf)
            | _ \<Rightarrow> ret pdf) st = (Inr pdf1, st1)"
  shows "pdf1 = pdf \<or> (\<exists>f. pdf1 = pdf @ [Picture f 10 y (W 36)])"
  using assms
  by (auto simp: bind_Inr lift_eq ret_eq image_def split: option.splits list.splits if_splits)

lemma step_body_block:
  assumes "step_body self recipe steps_y idx stp pdf st = (Inr pdf', st')"
  shows "\<exists>b. pdf' = pdf @ b \<and> step_block (steps_y + int idx * 26) b"
  using assms unfolding step_body_def bind_Inr lift_eq ret_eq
  apply (elim exE conjE)
  apply (drule step_picture)
  apply (auto simp: step_block_def multi_cell_def)
  done

lemma steps_loop_blocks:
  assumes "steps_loop self recipe steps_y xs pdf st = (Inr pdf', st')"
  shows "\<exists>blocks. pdf' = pdf @ concat blocks \<and> length blocks = length xs
           \<and> (\<forall>j < length xs. step_block (steps_y + int (fst (xs ! j)) * 26) (blocks ! j))"
  using assms
proof (induction xs arbitrary: pdf st)
  case Nil
  then show ?case
    by (auto simp: ret_eq intro: exI[of _ "[]"])
next
  case (Cons x xs)
  obtain idx stp where x: "x = (idx, stp)" by (cases x)
  from Cons.prems x obtain pdf1 st1 where
    body: "step_body self recipe steps_y idx stp pdf st = (Inr pdf1, st1)" and
    rest: "steps_loop self recipe steps_y xs pdf1 st1 = (Inr pdf', st')"
    by (auto simp: bind_Inr)
  from Cons.IH[OF rest] obtain blocks where
    blocks: "pdf' = pdf1 @ concat blocks" "length blocks = length xs"
      "\<forall>j < length xs. step_block (steps_y + int (fst (xs ! j)) * 26) (blocks ! j)"
    by blast
  from step_body_block[OF body] obtain b where
    b: "pdf1 = pdf @ b" "step_block (steps_y + int idx * 26) b"
    by blast
  have "\<forall>j < length (x # xs). step_block (steps_y + int (fst ((x # xs) ! j)) * 26) ((b # blocks) ! j)"
  proof (intro allI impI)
    fix j assume "j < length (x # xs)"
    with blocks(3) b(2) x show "step_block (steps_y + int (fst ((x # xs) ! j)) * 26) ((b # blocks) ! j)"
      by (cases j) simp_all
  qed
  with blocks b show ?case
    by (intro exI[of _ "b # blocks"]) simp
qed


lemma compose_loops:
  assumes "compose self r st = (Inr pdf, st')"
    and "ingredients r = Some ingrs" and "steps r = Some stps"
  shows "\<exists>hd st1 pdf6 num_ingr st2.
           length hd = 5
           \<and> ingredients_loop self r (enumerate 0 ingrs) (hd, 0) st1 = (Inr (pdf6, num_ingr), st2)
           \<and> steps_loop self r (67 + 13 * math_ceil (truediv num_ingr 4)) (enumerate 0 stps) pdf6 st2
               = (Inr pdf, st')"
  using assms unfolding compose_def Let_def bind_Inr lift_eq ret_eq
  apply (clarsimp simp: write_pdf_def multi_cell_def image_def bind_simps split: prod.splits)
  subgoal for cal descr img st1 pdf6 num_ingr st2
    apply (rule exI[of _ "[Text 14 10 15 (Some (prepare_str (name r) False)),
            Text 10 10 20 (Some (prepare_str (headline r) False)),
            Text 10 10 25 (Some (''For 2 people, '' @ str_opt cal @ '' cal per serving'')),
            MultiCell 7 10 30 110 4 (prepare_str descr False),
            Picture img 125 10 (W 72)]"])
    apply simp
    apply blast
    done
  done

lemma split_name_keeps:
  "split_name recipe = Inr r \<Longrightarrow> ingredients r = ingredients recipe \<and> steps r = steps recipe"
  by (auto simp: split_name_def split: option.splits if_splits list.splits)


lemma ceiling_real_quarter: "\<lceil>real n / 4\<rceil> = - ((- int n) div 4)"
  using floor_divide_of_int_eq[of "- int n" 4, where ?'a = real] by (simp add: ceiling_def)




lemma save_image_path:
  "save_image self url nm ext height st = (Inr p, st') \<Longrightarrow> p = path_join (TEMP_DIR self) (nm @ ''.'' @ ext)"
  by (auto simp: save_image_def Let_def bind_Inr isfile_def ret_eq lift_eq http_get_def write_file_def
           split: if_splits option.splits)

lemma ingredient_body_rendered_cell:
  assumes "ingredient_body self recipe idx ingr (pdf, n) st = (Inr (pdf', n'), st')"
    and "\<not> excluded ingr"
  shows "n' = n + 1 \<and> (\<exists>c. pdf' = pdf @ c \<and> rendered_cell self recipe n (idx, ingr) c)"
  using assms
  by (auto simp: ingredient_body_def bind_Inr lift_eq ret_eq excluded_iff floor_quarter Let_def
                 write_pdf_def image_def rendered_cell_def
           dest!: save_image_path split: if_splits)

lemma ingredients_loop_rendered:
  assumes "ingredients_loop self recipe xs (pdf, n) st = (Inr (pdf', n'), st')"
    and "rendered = filter (\<lambda>x. \<not> excluded (snd x)) xs"
  shows "\<exists>cells. pdf' = pdf @ concat cells
           \<and> length cells = length rendered
           \<and> n' = n + int (length rendered)
           \<and> (\<forall>k < length rendered. rendered_cell self recipe (n + int k) (rendered ! k) (cells ! k))"
  using assms
proof (induction xs arbitrary: pdf n st rendered)
  case Nil
  then show ?case
    by (auto simp: ret_eq intro: exI[of _ "[]"])
next
  case (Cons x xs)
  obtain idx ingr where x: "x = (idx, ingr)" by (cases x)
  from Cons.prems(1) x obtain pdf1 n1 st1 where
    body: "ingredient_body self recipe idx ingr (pdf, n) st = (Inr (pdf1, n1), st1)" and
    rest: "ingredients_loop self recipe xs (pdf1, n1) st1 = (Inr (pdf', n'), st')"
    by (auto simp: bind_Inr)
  define others where "others = filter (\<lambda>x. \<not> excluded (snd x)) xs"
  from Cons.IH[OF rest others_def] obtain cells where
    cells: "pdf' = pdf1 @ concat cells"
      "length cells = length others"
      "n' = n1 + int (length others)"
      "\<forall>k < length others. rendered_cell self recipe (n1 + int k) (others ! k) (cells ! k)"
    by blast
  show ?case
  proof (cases "excluded ingr")
    case True
    with body have "pdf1 = pdf" "n1 = n"
      by (simp_all add: ingredient_body_excluded ret_eq)
    moreover from True x Cons.prems(2) have "rendered = others"
      by (simp add: others_def)
    ultimately show ?thesis
      using cells by (intro exI[of _ cells]) simp
  next
    case False
    from ingredient_body_rendered_cell[OF body False] obtain c where
      c: "n1 = n + 1" "pdf1 = pdf @ c" "rendered_cell self recipe n (idx, ingr) c"
      by blast
    from False x Cons.prems(2) have r: "rendered = (idx, ingr) # others"
      by (simp add: others_def)
    have "\<forall>k < length rendered. rendered_cell self recipe (n + int k) (rendered ! k) ((c # cells) ! k)"
    proof (intro allI impI)
      fix k assume k: "k < length rendered"
      show "rendered_cell self recipe (n + int k) (rendered ! k) ((c # cells) ! k)"
      proof (cases k)
        case 0
        with c r show ?thesis by simp
      next
        case (Suc k')
        with k r cells(4) c(1)
        have "rendered_cell self recipe (n + 1 + int k') (others ! k') (cells ! k')" by simp
        with Suc r show ?thesis by (simp add: ac_simps)
      qed
    qed
    with cells c r show ?thesis
      by (intro exI[of _ "c # cells"]) simp
  qed
qed

lemma get_ingredient_details_split:
  "split_name recipe = Inr r \<Longrightarrow> get_ingredient_details r idx = get_ingredient_details recipe idx"
  by (auto simp: split_name_def get_ingredient_details_def split: option.splits if_splits list.splits)

lemma rendered_cell_split:
  "split_name recipe = Inr r \<Longrightarrow> rendered_cell self r k x c = rendered_cell self recipe k x c"
  by (simp add: rendered_cell_def get_ingredient_details_split)

lemma process_recipe_written:
  assumes "process_recipe self recipe st = (Inr (), st')" and "files st' \<noteq> files st"
  shows "\<exists>r st0 pdf st2. split_name recipe = Inr r \<and> compose self r st0 = (Inr pdf, st2)
           \<and> files st' (output_path self r) = Some (Pdf pdf)"
proof -
  have proper: "truthy (steps recipe)" "truthy (ingredients recipe)"
    using assms by (auto simp: process_recipe_def ret_eq split: if_splits)
  with assms(1) obtain r where r: "split_name recipe = Inr r"
    by (cases "split_name recipe") (auto simp: process_recipe_def bind_simps)
  define st0 where "st0 = (case author r of None \<Rightarrow> st
                 | Some a \<Rightarrow> st\<lparr>dirs := insert (path_join (RECIPE_DIR self) a) (dirs st)\<rparr>)"
  have files0: "files st0 = files st"
    by (auto simp: st0_def split: option.splits)
  have "\<not> (files st (output_path self r) \<noteq> None \<or> output_path self r \<in> dirs st0)"
  proof
    assume "files st (output_path self r) \<noteq> None \<or> output_path self r \<in> dirs st0"
    with assms(1) proper r have "st' = st0"
      by (simp add: process_recipe_unfold st0_def)
    with files0 assms(2) show False by simp
  qed
  with assms(1) proper r obtain pdf st2 where
    c: "compose self r st0 = (Inr pdf, st2)" and
    w: "write_file (output_path self r) (Pdf pdf) st2 = (Inr (), st')"
    by (auto simp: process_recipe_unfold st0_def[symmetric] bind_Inr)
  from w have "files st' (output_path self r) = Some (Pdf pdf)"
    by (auto simp: write_file_def)
  with r c show ?thesis by blast
qed

lemma compose_rendered:
  assumes "compose self r st = (Inr pdf, st')"
    and "ingredients r = Some ingrs" and "steps r = Some stps"
    and "rendered = filter (\<lambda>x. \<not> excluded (snd x)) (enumerate 0 ingrs)"
  shows "\<exists>hd cells blocks.
           pdf = hd @ concat cells @ concat blocks
           \<and> length hd = 5 \<and> length cells = length rendered \<and> length blocks = length stps
           \<and> (\<forall>k<length rendered. rendered_cell self r (int k) (rendered ! k) (cells ! k))
           \<and> (\<forall>j<length stps.
                 step_block (67 + 13 * \<lceil>real (length rendered) / 4\<rceil> + 26 * int j) (blocks ! j))"
proof -
  from compose_loops[OF assms(1,2,3)] obtain hd st1 pdf6 num_ingr st2 where
    hd: "length hd = 5" and
    loop1: "ingredients_loop self r (enumerate 0 ingrs) (hd, 0) st1 = (Inr (pdf6, num_ingr), st2)" and
    loop2: "steps_loop self r (67 + 13 * math_ceil (truediv num_ingr 4)) (enumerate 0 stps) pdf6 st2
              = (Inr pdf, st')"
    by blast
  from ingredients_loop_rendered[OF loop1 assms(4)] obtain cells where
    cells: "pdf6 = hd @ concat cells" "length cells = length rendered"
      "num_ingr = int (length rendered)"
      "\<forall>k<length rendered. rendered_cell self r (int k) (rendered ! k) (cells ! k)"
    by force
  from steps_loop_blocks[OF loop2] obtain blocks where
    blocks: "pdf = pdf6 @ concat blocks" "length blocks = length stps"
      "\<forall>j<length stps. step_block (67 + 13 * math_ceil (truediv num_ingr 4)
                                     + int (fst (enumerate 0 stps ! j)) * 26) (blocks ! j)"
    by auto
  have "\<forall>j<length stps.
          step_block (67 + 13 * \<lceil>real (length rendered) / 4\<rceil> + 26 * int j) (blocks ! j)"
  proof (intro allI impI)
    fix j assume j: "j < length stps"
    with blocks(3) have "step_block (67 + 13 * math_ceil (truediv num_ingr 4)
                                     + int (fst (enumerate 0 stps ! j)) * 26) (blocks ! j)"
      by blast
    with j show "step_block (67 + 13 * \<lceil>real (length rendered) / 4\<rceil> + 26 * int j) (blocks ! j)"
      by (simp add: nth_enumerate_eq ceil_quarter ceiling_real_quarter cells(3) mult.commute)
  qed
  with hd cells blocks show ?thesis
    apply (rule_tac x = hd in exI)
    apply (rule_tac x = cells in exI)
    apply (rule_tac x = blocks in exI)
    apply simp
    done
qed

text \<open>
  C6. The turn of the loop for an excluded ingredient leaves the page, the counter and the
  state as they are: no call is drawn and no picture is fetched for it. When
  \<open>process_recipe\<close> has written the document of a recipe, let \<open>rendered\<close> be the ingredients
  that are not excluded, each paired with its index in the recipe's full list. The document
  is the head of the page, then one cell for each entry of \<open>rendered\<close> and no other, then
  the steps. The cell in slot \<open>k\<close> belongs to the \<open>k\<close>-th entry \<open>(idx, ingr)\<close> of
  \<open>rendered\<close>: its picture, if it has one, is stored under the name of \<open>ingr\<close>, and its two
  lines are those \<open>get_ingredient_details\<close> gives for the recipe at \<open>idx\<close>, the index in the
  full list, not at \<open>k\<close>. The steps start at the height computed from the number of entries
  of \<open>rendered\<close>.
\<close>

theorem excluded_ingredients_keep_positions:
  assumes "process_recipe self recipe st = (Inr (), st')"
    and "files st' \<noteq> files st"
    and "ingredients recipe = Some ingrs" and "steps recipe = Some stps"
    and "rendered = filter (\<lambda>x. \<not> excluded (snd x)) (enumerate 0 ingrs)"
  shows "(excluded common \<longrightarrow>
            ingredient_body self recipe i common (page, num_ingr) s = (Inr (page, num_ingr), s))
      \<and> (\<exists>out hd cells blocks.
            files st' out = Some (Pdf (hd @ concat cells @ concat blocks))
            \<and> length hd = 5 \<and> length cells = length rendered \<and> length blocks = length stps
            \<and> (\<forall>k<length rendered. \<exists>nm ip ln_1 ln_2.
                  getitem (ingr_name (snd (rendered ! k))) = Inr nm
                  \<and> getitem (ingr_imagePath (snd (rendered ! k))) = Inr ip
                  \<and> get_ingredient_details recipe (fst (rendered ! k)) = Inr (ln_1, ln_2)
                  \<and> cells ! k =
                      (if truthy ip
                       then [Picture (path_join (TEMP_DIR self) (prepare_str nm True @ ''.png''))
                               (10 + 46 * (int k mod 4)) (62 + 13 * (int k div 4)) (H 12)]
                       else [])
                      @ [Text 9 (22 + 46 * (int k mod 4)) (66 + 13 * (int k div 4)) ln_1,
                         Text 7 (22 + 46 * (int k mod 4)) (70 + 13 * (int k div 4)) ln_2])
            \<and> (\<forall>j<length stps. \<exists>pics txt.
                  blocks ! j = pics @ [MultiCell 10 50
                                         (67 + 13 * \<lceil>real (length rendered) / 4\<rceil> + 26 * int j) 145 4 txt]
                  \<and> (pics = [] \<or>
                       (\<exists>f. pics = [Picture f 10
                                       (67 + 13 * \<lceil>real (length rendered) / 4\<rceil> + 26 * int j) (W 36)]))))"
proof (rule conjI)
  show "excluded common \<longrightarrow>
          ingredient_body self recipe i common (page, num_ingr) s = (Inr (page, num_ingr), s)"
    by (simp add: ingredient_body_excluded ret_def)
next
  from process_recipe_written[OF assms(1,2)] obtain r st0 pdf st2 where
    r: "split_name recipe = Inr r" and
    c: "compose self r st0 = (Inr pdf, st2)" and
    doc: "files st' (output_path self r) = Some (Pdf pdf)"
    by blast
  from split_name_keeps[OF r] assms(3,4) have "ingredients r = Some ingrs" "steps r = Some stps"
    by simp_all
  from compose_rendered[OF c this assms(5)] obtain hd cells blocks where
    layout: "pdf = hd @ concat cells @ concat blocks"
      "length hd = 5" "length cells = length rendered" "length blocks = length stps"
      "\<forall>k<length rendered. rendered_cell self r (int k) (rendered ! k) (cells ! k)"
      "\<forall>j<length stps.
         step_block (67 + 13 * \<lceil>real (length rendered) / 4\<rceil> + 26 * int j) (blocks ! j)"
    by blast
  from layout(5) have cell: "\<forall>k<length rendered. rendered_cell self recipe (int k) (rendered ! k) (cells ! k)"
    by (simp add: rendered_cell_split[OF r])
  from doc layout(1) have doc': "files st' (output_path self r) = Some (Pdf (hd @ concat cells @ concat blocks))"
    by simp
  from doc' layout(2,3,4) cell layout(6)
  show "\<exists>out hd cells blocks.
            files st' out = Some (Pdf (hd @ concat cells @ concat blocks))
            \<and> length hd = 5 \<and> length cells = length rendered \<and> length blocks = length stps
            \<and> (\<forall>k<length rendered. \<exists>nm ip ln_1 ln_2.
                  getitem (ingr_name (snd (rendered ! k))) = Inr nm
                  \<and> getitem (ingr_imagePath (snd (rendered ! k))) = Inr ip
                  \<and> get_ingredient_details recipe (fst (rendered ! k)) = Inr (ln_1, ln_2)
                  \<and> cells ! k =
                      (if truthy ip
                       then [Picture (path_join (TEMP_DIR self) (prepare_str nm True @ ''.png''))
                               (10 + 46 * (int k mod 4)) (62 + 13 * (int k div 4)) (H 12)]
                       else [])
                      @ [Text 9 (22 + 46 * (int k mod 4)) (66 + 13 * (int k div 4)) ln_1,
                         Text 7 (22 + 46 * (int k mod 4)) (70 + 13 * (int k div 4)) ln_2])
            \<and> (\<forall>j<length stps. \<exists>pics txt.
                  blocks ! j = pics @ [MultiCell 10 50
                                         (67 + 13 * \<lceil>real (length rendered) / 4\<rceil> + 26 * int j) 145 4 txt]
                  \<and> (pics = [] \<or>
                       (\<exists>f. pics = [Picture f 10
                                       (67 + 13 * \<lceil>real (length rendered) / 4\<rceil> + 26 * int j) (W 36)])))"
    unfolding rendered_cell_def step_block_def
    apply (rule_tac x = "output_path self r" in exI)
    apply (rule_tac x = hd in exI)
    apply (rule_tac x = cells in exI)
    apply (rule_tac x = blocks in exI)
    apply (intro conjI)
         apply assumption+
    done
qed

theorem excluded_ingredients_keep_positions_witness:
  "ingredient_body online supper 0 \<lparr>ingr_name = Val ''Salt'', ingr_imagePath = Null\<rparr> ([], 0) empty_disk
     = (Inr ([], 0), empty_disk)
   \<and> filter (\<lambda>x. \<not> excluded (snd x)) (enumerate 0 (the (ingredients supper)))
       = [(1, \<lparr>ingr_name = Val ''Chicken Breast'', ingr_imagePath = Val ''/chicken.png''\<rparr>),
          (2, \<lparr>ingr_name = Val ''salt'', ingr_imagePath = Null\<rparr>)]
   \<and> get_ingredient_details supper 1 = Inr (Some ''2'', Some ''Chicken Breast'')
   \<and> get_ingredient_details supper 2 = Inr (Some (quarter @ '' teaspoon''), Some ''salt'')
   \<and> (\<exists>out hd cells blocks.
        files after_supper out = Some (Pdf (hd @ concat cells @ concat blocks))
        \<and> length hd = 5 \<and> length cells = 2 \<and> length blocks = 2
        \<and> cells ! 0 = [Picture ''tmp/Chicken Breast.png'' 10 62 (H 12),
                       Text 9 22 66 (Some ''2''), Text 7 22 70 (Some ''Chicken Breast'')]
        \<and> cells ! 1 = [Text 9 68 66 (Some (quarter @ '' teaspoon'')), Text 7 68 70 (Some ''salt'')])"
proof -
  have changed: "files after_supper \<noteq> files empty_disk"
  proof
    assume same: "files after_supper = files empty_disk"
    have "files after_supper ''recipes/Test Kitchen/Seared Chicken.pdf'' \<noteq> None"
      by code_simp
    with same show False
      by (simp add: empty_disk_def)
  qed
  have salt: "excluded \<lparr>ingr_name = Val ''Salt'', ingr_imagePath = Null\<rparr>"
    by (simp add: excluded_def COMMON_INGREDIENTS_def)
  have rendered: "[(1, \<lparr>ingr_name = Val ''Chicken Breast'', ingr_imagePath = Val ''/chicken.png''\<rparr>),
                   (2, \<lparr>ingr_name = Val ''salt'', ingr_imagePath = Null\<rparr>)]
      = filter (\<lambda>x. \<not> excluded (snd x)) (enumerate 0 (the (ingredients supper)))"
    by (simp add: supper_def excluded_def COMMON_INGREDIENTS_def)
  have lines1: "get_ingredient_details supper 1 = Inr (Some ''2'', Some ''Chicken Breast'')"
    by code_simp
  have lines2: "get_ingredient_details supper 2 = Inr (Some (quarter @ '' teaspoon''), Some ''salt'')"
    by code_simp
  have png: "path_join (TEMP_DIR online) (prepare_str (Some ''Chicken Breast'') True @ ''.png'')
                = ''tmp/Chicken Breast.png''"
    by code_simp
  from excluded_ingredients_keep_positions
         [OF supper_done changed _ _ rendered,
          where stps = "the (steps supper)"
            and common = "\<lparr>ingr_name = Val ''Salt'', ingr_imagePath = Null\<rparr>"
            and i = 0 and page = "[]" and num_ingr = 0 and s = empty_disk]
       salt
  obtain out hd cells blocks where
    body: "ingredient_body online supper 0 \<lparr>ingr_name = Val ''Salt'', ingr_imagePath = Null\<rparr>
             ([], 0) empty_disk = (Inr ([], 0), empty_disk)" and
    doc: "files after_supper out = Some (Pdf (hd @ concat cells @ concat blocks))"
      "length hd = 5" "length cells = 2" "length blocks = 2" and
    cell: "\<forall>k<2. \<exists>nm ip ln_1 ln_2.
             getitem (ingr_name (snd ([(1, \<lparr>ingr_name = Val ''Chicken Breast'', ingr_imagePath = Val ''/chicken.png''\<rparr>),
                   (2::nat, \<lparr>ingr_name = Val ''salt'', ingr_imagePath = Null\<rparr>)] ! k))) = Inr nm
             \<and> getitem (ingr_imagePath (snd ([(1, \<lparr>ingr_name = Val ''Chicken Breast'', ingr_imagePath = Val ''/chicken.png''\<rparr>),
                   (2::nat, \<lparr>ingr_name = Val ''salt'', ingr_imagePath = Null\<rparr>)] ! k))) = Inr ip
             \<and> get_ingredient_details supper (fst ([(1, \<lparr>ingr_name = Val ''Chicken Breast'', ingr_imagePath = Val ''/chicken.png''\<rparr>),
                   (2::nat, \<lparr>ingr_name = Val ''salt'', ingr_imagePath = Null\<rparr>)] ! k)) = Inr (ln_1, ln_2)
             \<and> cells ! k =
                 (if truthy ip
                  then [Picture (path_join (TEMP_DIR online) (prepare_str nm True @ ''.png''))
                          (10 + 46 * (int k mod 4)) (62 + 13 * (int k div 4)) (H 12)]
                  else [])
                 @ [Text 9 (22 + 46 * (int k mod 4)) (66 + 13 * (int k div 4)) ln_1,
                    Text 7 (22 + 46 * (int k mod 4)) (70 + 13 * (int k div 4)) ln_2]"
    by (auto simp: supper_def)
  from cell have "\<exists>nm ip ln_1 ln_2.
             getitem (Val ''Chicken Breast'') = Inr nm
             \<and> getitem (Val ''/chicken.png'') = Inr ip
             \<and> get_ingredient_details supper 1 = Inr (ln_1, ln_2)
             \<and> cells ! 0 =
                 (if truthy ip
                  then [Picture (path_join (TEMP_DIR online) (prepare_str nm True @ ''.png'')) 10 62 (H 12)]
                  else [])
                 @ [Text 9 22 66 ln_1, Text 7 22 70 ln_2]"
    by (auto dest!: spec[of _ 0])
  with lines1 png have first: "cells ! 0 = [Picture ''tmp/Chicken Breast.png'' 10 62 (H 12),
                       Text 9 22 66 (Some ''2''), Text 7 22 70 (Some ''Chicken Breast'')]"
    by auto
  from cell have "\<exists>nm ip ln_1 ln_2.
             getitem (Val ''salt'') = Inr nm
             \<and> getitem (Null :: string field) = Inr ip
             \<and> get_ingredient_details supper 2 = Inr (ln_1, ln_2)
             \<and> cells ! 1 =
                 (if truthy ip
                  then [Picture (path_join (TEMP_DIR online) (prepare_str nm True @ ''.png'')) 56 62 (H 12)]
                  else [])
                 @ [Text 9 68 66 ln_1, Text 7 68 70 ln_2]"
    by (auto dest!: spec[of _ 1])
  with lines2 have second: "cells ! 1 = [Text 9 68 66 (Some (quarter @ '' teaspoon'')), Text 7 68 70 (Some ''salt'')]"
    by auto
  from doc first second have "\<exists>out hd cells blocks.
        files after_supper out = Some (Pdf (hd @ concat cells @ concat blocks))
        \<and> length hd = 5 \<and> length cells = 2 \<and> length blocks = 2
        \<and> cells ! 0 = [Picture ''tmp/Chicken Breast.png'' 10 62 (H 12),
                       Text 9 22 66 (Some ''2''), Text 7 22 70 (Some ''Chicken Breast'')]
        \<and> cells ! 1 = [Text 9 68 66 (Some (quarter @ '' teaspoon'')), Text 7 68 70 (Some ''salt'')]"
    by blast
  with body rendered lines1 lines2 show ?thesis
    by simp
qed

text \<open>
  C10. A name is excluded exactly when it equals one of the four strings \<^verbatim>\<open>Salt\<close>,
  \<^verbatim>\<open>Pepper\<close>, \<^verbatim>\<open>Sugar\<close>, \<^verbatim>\<open>Butter\<close>, letter for letter. An ingredient named
  \<^verbatim>\<open>salt\<close>, \<^verbatim>\<open>SALT\<close> or \<^verbatim>\<open>Sea Salt\<close> is not excluded: where its turn of the loop
  returns, its first line stands in the slot of the counter and the counter has advanced.
\<close>

theorem exclusion_is_exact_match:
  "(is_common (Some n) \<longleftrightarrow> n = ''Salt'' \<or> n = ''Pepper'' \<or> n = ''Sugar'' \<or> n = ''Butter'')
   \<and> (nm \<in> {''salt'', ''SALT'', ''Sea Salt''} \<longrightarrow> ingr_name ingr = Val nm \<longrightarrow>
        \<not> excluded ingr
        \<and> (ingredient_body self recipe idx ingr (pdf, num_ingr) st = (Inr (pdf', num_ingr'), st') \<longrightarrow>
             num_ingr' = num_ingr + 1
             \<and> (\<exists>ln_1. Text 9 (22 + 46 * (num_ingr mod 4)) (66 + 13 * (num_ingr div 4)) ln_1
                        \<in> set pdf')))"
proof (intro conjI impI)
  show "is_common (Some n) \<longleftrightarrow> n = ''Salt'' \<or> n = ''Pepper'' \<or> n = ''Sugar'' \<or> n = ''Butter''"
    by (auto simp: COMMON_INGREDIENTS_def)
next
  assume nm: "nm \<in> {''salt'', ''SALT'', ''Sea Salt''}" "ingr_name ingr = Val nm"
  then show kept: "\<not> excluded ingr"
    by (auto simp: excluded_def COMMON_INGREDIENTS_def)
  assume "ingredient_body self recipe idx ingr (pdf, num_ingr) st = (Inr (pdf', num_ingr'), st')"
  from ingredient_body_rendered[OF this kept]
  show "num_ingr' = num_ingr + 1"
    and "\<exists>ln_1. Text 9 (22 + 46 * (num_ingr mod 4)) (66 + 13 * (num_ingr div 4)) ln_1 \<in> set pdf'"
    by auto
qed

theorem exclusion_is_exact_match_witness:
  "\<not> is_common (Some ''salt'')
   \<and> \<not> excluded \<lparr>ingr_name = Val ''salt'', ingr_imagePath = Null\<rparr>
   \<and> fst (ingredient_body online supper 2 \<lparr>ingr_name = Val ''salt'', ingr_imagePath = Null\<rparr>
            ([], 1) empty_disk)
       = Inr ([Text 9 68 66 (Some (quarter @ '' teaspoon'')), Text 7 68 70 (Some ''salt'')], 2)
   \<and> (\<exists>ln_1. Text 9 68 66 ln_1 \<in> set [Text 9 68 66 (Some (quarter @ '' teaspoon'')),
                                         Text 7 68 70 (Some ''salt'')])"
proof -
  have body: "fst (ingredient_body online supper 2 \<lparr>ingr_name = Val ''salt'', ingr_imagePath = Null\<rparr>
            ([], 1) empty_disk)
       = Inr ([Text 9 68 66 (Some (quarter @ '' teaspoon'')), Text 7 68 70 (Some ''salt'')], 2)"
    by code_simp
  then have run: "ingredient_body online supper 2 \<lparr>ingr_name = Val ''salt'', ingr_imagePath = Null\<rparr>
            ([], 1) empty_disk
       = (Inr ([Text 9 68 66 (Some (quarter @ '' teaspoon'')), Text 7 68 70 (Some ''salt'')], 2),
          snd (ingredient_body online supper 2 \<lparr>ingr_name = Val ''salt'', ingr_imagePath = Null\<rparr>
                 ([], 1) empty_disk))"
    by (simp add: prod_eq_iff)
  from exclusion_is_exact_match
         [where n = "''salt''" and nm = "''salt''"
            and ingr = "\<lparr>ingr_name = Val ''salt'', ingr_imagePath = Null\<rparr>"
            and self = online and recipe = supper and idx = 2 and pdf = "[]" and num_ingr = 1
            and st = empty_disk
            and pdf' = "[Text 9 68 66 (Some (quarter @ '' teaspoon'')), Text 7 68 70 (Some ''salt'')]"
            and num_ingr' = 2
            and st' = "snd (ingredient_body online supper 2
                 \<lparr>ingr_name = Val ''salt'', ingr_imagePath = Null\<rparr> ([], 1) empty_disk)"]
       run body
  show ?thesis
    by simp
qed

end
